theory Spec2Isabelle
  imports Complex_Main "HOL-Library.Word" "HOL-Library.Signed_Division"
begin

section \<open>The Toupcam camera driver (indi\_toupbase.cpp)\<close>

text \<open>
  The driver is one C++ class, \<open>ToupBase\<close>. Its member functions are embedded as HOL
  functions that take the member variables they touch and return them updated. Every call
  that leaves the driver (the vendor SDK, the INDI framework, the timers) is appended to a
  trace, in program order; what such a call returns is an argument of the embedded function.

  Numbers: \<open>double\<close> values are \<open>real\<close> and their arithmetic is exact (rounding,
  infinities and NaN are not modelled). A \<open>float\<close> is the \<open>real\<close> it stands for, and a
  product of \<open>float\<close>s is rounded to single precision (\<open>to_float\<close>). \<open>uint32_t\<close> is
  \<open>32 word\<close> and \<open>uint8_t\<close> pixel data is \<open>8 word\<close>; \<open>int\<close> is \<open>int\<close>, with C's
  truncating \<open>/\<close> and \<open>%\<close>. Signed overflow, which C leaves undefined, is a fault of its
  own for the loop counter of the RGB loop and for the buffer size of \<open>UpdateCCDFrame\<close>,
  where the product is divided and multiplied again before it is stored; a product of
  \<open>int\<close> that is stored in a \<open>uint32_t\<close> at once is taken modulo \<open>2^32\<close>, as two's
  complement hardware gives it. A conversion from floating point to an integer type is
  taken modulo \<open>2^32\<close> (\<open>uint32_t\<close>) or exactly (\<open>int\<close>); C defines it only within
  the range of the type.
\<close>

subsection \<open>INDI and SDK vocabulary\<close>

datatype ISState = ISS_OFF | ISS_ON

datatype IPState = IPS_IDLE | IPS_OK | IPS_BUSY | IPS_ALERT

datatype gain_switch = GAIN_LOW | GAIN_HIGH | GAIN_HDR

datatype gain_number = TC_HCG_THRESHOLD | TC_HCG_LCG_RATIO

datatype eGUIDEDIRECTION = TOUPBASE_NORTH | TOUPBASE_SOUTH | TOUPBASE_EAST | TOUPBASE_WEST

datatype guide_axis = AXIS_RA | AXIS_DE

datatype trigger_mode = TRIGGER_VIDEO | TRIGGER_SOFTWARE

text \<open>
  The two video formats of a colour camera. On a mono camera the same member holds
  \<open>TC_VIDEO_MONO_8\<close> or \<open>TC_VIDEO_MONO_16\<close>; the functions below test
  \<open>m_MonoCamera\<close> first and never look at the format of a mono camera.
\<close>

datatype video_format = TC_VIDEO_COLOR_RGB | TC_VIDEO_COLOR_RAW

type_synonym byte = "8 word"

text \<open>\<open>HRESULT\<close> is a signed 32-bit status; \<open>FAILED\<close> and \<open>SUCCEEDED\<close> test its sign.\<close>

type_synonym HRESULT = int

definition FAILED :: "HRESULT \<Rightarrow> bool" where
  "FAILED hr = (hr < 0)"

definition SUCCEEDED :: "HRESULT \<Rightarrow> bool" where
  "SUCCEEDED hr = (0 \<le> hr)"

text \<open>
  Calls that leave the driver, as they appear in the trace: the vendor SDK
  (\<open>SDK_\<close>), the framework's chip object \<open>PrimaryCCD\<close> (\<open>CCD_\<close>), the stream
  manager, the framework's signals and timers, and the capture timeout object
  \<open>m_CaptureTimeout\<close>. Log lines are not calls and are left out.
\<close>

datatype call =
    SDK_get_Option_CG
  | SDK_put_Option_CG gain_switch
  | SDK_put_Option_TRIGGER int
  | SDK_put_ExpoTime "32 word"
  | SDK_Snap int
  | SDK_Trigger int
  | SDK_put_Roi int int int int
  | SDK_ST4PlusGuide eGUIDEDIRECTION "32 word"
  | SDK_PullImageV2 int
  | SDK_PullStillImageV2 int
  | SDK_Flush
  | IDSetSwitch_GainConversionSP
  | CCD_setExposureLeft real
  | CCD_setExposureFailed
  | ExposureComplete
  | Streamer_newFrame "byte list option" nat
  | Streamer_setSize int int
  | GuideComplete guide_axis
  | IERmTimer int
  | IEAddTimer "32 word"
  | usleep "32 word"
  | CaptureTimeout_start int
  | CaptureTimeout_stop

text \<open>
  What C leaves undefined is a value of its own: a read or write outside a buffer, a
  division by zero, an overflow of signed arithmetic.
\<close>

datatype fault = OutOfBounds | DivisionByZero | SignedOverflow

subsection \<open>Dual gain\<close>

text \<open>
  The members read and written by \<open>dualGainEnabled\<close> and \<open>setDualGainMode\<close>.
  \<open>GainConversionS\<close> is the three-element switch vector (declared with rule
  \<open>ISR_1OFMANY\<close> in \<open>initProperties\<close>), \<open>GainConversionN\<close> the two-element number
  vector.
\<close>

text \<open>
  Modelled from the spec: the type of the member \<open>m_NativeGain\<close>. Its declaration is in
  the class header, which is not among the sources; the spec describes the native gain as
  the requested gain divided by the ratio, so the member is a \<open>real\<close> that holds the value
  assigned to it unchanged.
\<close>

record GainModel =
  m_hasDualGain :: bool
  GainConversionN :: "gain_number \<Rightarrow> real"
  GainConversionS :: "gain_switch \<Rightarrow> ISState"
  GainConversionSP_s :: IPState
  m_NativeGain :: real
  gain_calls :: "call list"

text \<open>\<open>IUResetSwitch\<close> turns every switch of a vector off.\<close>

definition IUResetSwitch :: "gain_switch \<Rightarrow> ISState" where
  "IUResetSwitch = (\<lambda>_. ISS_OFF)"

definition dualGainEnabled :: "GainModel \<Rightarrow> bool" where
  "dualGainEnabled g =
     (m_hasDualGain g \<and>
      GainConversionN g TC_HCG_LCG_RATIO > 1.0001 \<and>
      GainConversionS g GAIN_HDR = ISS_OFF)"

text \<open>
  \<open>setDualGainMode\<close> returns the native gain and the updated members. The two guarded
  blocks switch the hardware and the switch vector; the last block divides by the ratio
  when the High switch is on.
\<close>

definition setDualGainMode :: "real \<Rightarrow> GainModel \<Rightarrow> real \<times> GainModel" where
  "setDualGainMode gain g =
     (let g1 =
        (if gain \<ge> GainConversionN g TC_HCG_THRESHOLD \<and> GainConversionS g GAIN_HIGH = ISS_OFF
         then g\<lparr>GainConversionS := IUResetSwitch(GAIN_HIGH := ISS_ON),
                 GainConversionSP_s := IPS_OK,
                 gain_calls := gain_calls g @ [SDK_put_Option_CG GAIN_HIGH, IDSetSwitch_GainConversionSP]\<rparr>
         else if gain < GainConversionN g TC_HCG_THRESHOLD \<and> GainConversionS g GAIN_LOW = ISS_OFF
         then g\<lparr>GainConversionS := IUResetSwitch(GAIN_LOW := ISS_ON),
                 GainConversionSP_s := IPS_OK,
                 gain_calls := gain_calls g @ [SDK_put_Option_CG GAIN_LOW, IDSetSwitch_GainConversionSP]\<rparr>
         else g);
          gain' =
        (if GainConversionS g1 GAIN_HIGH = ISS_ON
         then gain / GainConversionN g1 TC_HCG_LCG_RATIO
         else gain)
      in (gain', g1\<lparr>m_NativeGain := gain'\<rparr>))"

text \<open>
  The lines of \<open>setupParams\<close> that read the conversion gain of the camera, run by
  \<open>updateProperties\<close> at every connection. \<open>flag_cg\<close> says whether the flags of the camera
  model have \<open>FLAG_CG\<close> or \<open>FLAG_CGHDR\<close>. \<open>highConversionGain\<close> is the value left in the
  variable of that name, 0 unless \<open>get_Option\<close> overwrites it, given as the element of the
  switch vector that it indexes (\<open>None\<close> when it indexes none of the three). The switch is
  turned on in place; the other switches are not touched.
\<close>

definition setupParams_conversion_gain ::
  "bool \<Rightarrow> gain_switch option \<Rightarrow> GainModel \<Rightarrow> fault + GainModel" where
  "setupParams_conversion_gain flag_cg highConversionGain g =
     (let g1 = (if flag_cg then g\<lparr>m_hasDualGain := True\<rparr> else g);
          g2 = g1\<lparr>gain_calls := gain_calls g1 @ [SDK_get_Option_CG]\<rparr>
      in case highConversionGain of
           None \<Rightarrow> Inl OutOfBounds
         | Some m \<Rightarrow> Inr (g2\<lparr>GainConversionS := (GainConversionS g2)(m := ISS_ON)\<rparr>))"

text \<open>
  The rule of the switch vector: at most one of the three switches is on. The conversion
  gain mode is the switch that is on.
\<close>

definition one_of_many :: "(gain_switch \<Rightarrow> ISState) \<Rightarrow> bool" where
  "one_of_many sw =
     (\<not> (sw GAIN_LOW = ISS_ON \<and> sw GAIN_HIGH = ISS_ON) \<and>
      \<not> (sw GAIN_LOW = ISS_ON \<and> sw GAIN_HDR = ISS_ON) \<and>
      \<not> (sw GAIN_HIGH = ISS_ON \<and> sw GAIN_HDR = ISS_ON))"

definition mode_is :: "gain_switch \<Rightarrow> GainModel \<Rightarrow> bool" where
  "mode_is m g = (GainConversionS g m = ISS_ON \<and> one_of_many (GainConversionS g))"

subsection \<open>Guide pulses\<close>

text \<open>
  The members of the two guide axes. A timer id of \<open>-1\<close> means that no pulse is pending
  on the axis.
\<close>

record GuideModel =
  NStimerID :: int
  NSDir :: eGUIDEDIRECTION
  NSDirName :: string
  WEtimerID :: int
  WEDir :: eGUIDEDIRECTION
  WEDirName :: string
  guide_calls :: "call list"

definition TimerNS :: "GuideModel \<Rightarrow> GuideModel" where
  "TimerNS g = g\<lparr>NStimerID := -1, guide_calls := guide_calls g @ [GuideComplete AXIS_DE]\<rparr>"

definition stopTimerNS :: "GuideModel \<Rightarrow> GuideModel" where
  "stopTimerNS g =
     (if NStimerID g \<noteq> -1
      then g\<lparr>guide_calls := guide_calls g @ [GuideComplete AXIS_DE, IERmTimer (NStimerID g)],
              NStimerID := -1\<rparr>
      else g)"

text \<open>
  \<open>rc\<close> is what \<open>ST4PlusGuide\<close> returns and \<open>tid\<close> the id that \<open>IEAddTimer\<close> hands
  out. The result is the state reported to the framework and the updated members.
\<close>

definition guidePulseNS ::
  "32 word \<Rightarrow> eGUIDEDIRECTION \<Rightarrow> string \<Rightarrow> HRESULT \<Rightarrow> int \<Rightarrow> GuideModel \<Rightarrow> IPState \<times> GuideModel" where
  "guidePulseNS ms dir dirName rc tid g =
     (let g1 = stopTimerNS g;
          g2 = g1\<lparr>NSDir := dir, NSDirName := dirName\<rparr>;
          uSecs = ms * 1000;
          g3 = g2\<lparr>guide_calls := guide_calls g2 @ [SDK_ST4PlusGuide dir ms]\<rparr>
      in if FAILED rc then (IPS_ALERT, g3)
         else if ms < 50 then (IPS_OK, g3\<lparr>guide_calls := guide_calls g3 @ [usleep uSecs]\<rparr>)
         else (IPS_BUSY, g3\<lparr>guide_calls := guide_calls g3 @ [IEAddTimer ms], NStimerID := tid\<rparr>))"

definition TimerWE :: "GuideModel \<Rightarrow> GuideModel" where
  "TimerWE g = g\<lparr>WEtimerID := -1, guide_calls := guide_calls g @ [GuideComplete AXIS_RA]\<rparr>"

definition stopTimerWE :: "GuideModel \<Rightarrow> GuideModel" where
  "stopTimerWE g =
     (if WEtimerID g \<noteq> -1
      then g\<lparr>guide_calls := guide_calls g @ [GuideComplete AXIS_RA, IERmTimer (WEtimerID g)],
              WEtimerID := -1\<rparr>
      else g)"

definition guidePulseWE ::
  "32 word \<Rightarrow> eGUIDEDIRECTION \<Rightarrow> string \<Rightarrow> HRESULT \<Rightarrow> int \<Rightarrow> GuideModel \<Rightarrow> IPState \<times> GuideModel" where
  "guidePulseWE ms dir dirName rc tid g =
     (let g1 = stopTimerWE g;
          g2 = g1\<lparr>WEDir := dir, WEDirName := dirName\<rparr>;
          uSecs = ms * 1000;
          g3 = g2\<lparr>guide_calls := guide_calls g2 @ [SDK_ST4PlusGuide dir ms]\<rparr>
      in if FAILED rc then (IPS_ALERT, g3)
         else if ms < 50 then (IPS_OK, g3\<lparr>guide_calls := guide_calls g3 @ [usleep uSecs]\<rparr>)
         else (IPS_BUSY, g3\<lparr>guide_calls := guide_calls g3 @ [IEAddTimer ms], WEtimerID := tid\<rparr>))"

definition GuideNorth :: "32 word \<Rightarrow> HRESULT \<Rightarrow> int \<Rightarrow> GuideModel \<Rightarrow> IPState \<times> GuideModel" where
  "GuideNorth ms = guidePulseNS ms TOUPBASE_NORTH ''North''"

definition GuideSouth :: "32 word \<Rightarrow> HRESULT \<Rightarrow> int \<Rightarrow> GuideModel \<Rightarrow> IPState \<times> GuideModel" where
  "GuideSouth ms = guidePulseNS ms TOUPBASE_SOUTH ''South''"

definition GuideEast :: "32 word \<Rightarrow> HRESULT \<Rightarrow> int \<Rightarrow> GuideModel \<Rightarrow> IPState \<times> GuideModel" where
  "GuideEast ms = guidePulseWE ms TOUPBASE_EAST ''East''"

definition GuideWest :: "32 word \<Rightarrow> HRESULT \<Rightarrow> int \<Rightarrow> GuideModel \<Rightarrow> IPState \<times> GuideModel" where
  "GuideWest ms = guidePulseWE ms TOUPBASE_WEST ''West''"

subsection \<open>Exposure state\<close>

text \<open>
  \<open>struct timeval\<close> with the two macros of \<open>sys/time.h\<close> that the driver uses.
\<close>

record timeval =
  tv_sec :: int
  tv_usec :: int

definition timeradd :: "timeval \<Rightarrow> timeval \<Rightarrow> timeval" where
  "timeradd a b =
     (let sec = tv_sec a + tv_sec b; usec = tv_usec a + tv_usec b
      in if usec \<ge> 1000000 then \<lparr>tv_sec = sec + 1, tv_usec = usec - 1000000\<rparr>
         else \<lparr>tv_sec = sec, tv_usec = usec\<rparr>)"

definition timersub :: "timeval \<Rightarrow> timeval \<Rightarrow> timeval" where
  "timersub a b =
     (let sec = tv_sec a - tv_sec b; usec = tv_usec a - tv_usec b
      in if usec < 0 then \<lparr>tv_sec = sec - 1, tv_usec = usec + 1000000\<rparr>
         else \<lparr>tv_sec = sec, tv_usec = usec\<rparr>)"

text \<open>Conversion of a floating-point value to an integer type drops the fraction.\<close>

definition trunc_toward_zero :: "real \<Rightarrow> int" where
  "trunc_toward_zero x = (if 0 \<le> x then \<lfloor>x\<rfloor> else \<lceil>x\<rceil>)"

text \<open>
  Rounding to single precision (IEEE 754 binary32, round to nearest, ties to even), for
  the products of \<open>float\<close> values. \<open>float_normalise\<close> scales the magnitude into
  \<open>[2^23, 2^24)\<close>, where the representable values are the integers, or stops at the
  exponent \<open>-149\<close> of the subnormal numbers; 400 steps reach every exponent of the
  format. Values beyond the largest \<open>float\<close>, which C rounds to infinity, are not
  modelled.
\<close>

definition round_ties_even :: "real \<Rightarrow> int" where
  "round_ties_even x =
     (let f = \<lfloor>x\<rfloor>; d = x - of_int f
      in if d < 1 / 2 then f else if 1 / 2 < d then f + 1 else if even f then f else f + 1)"

fun float_normalise :: "nat \<Rightarrow> real \<Rightarrow> int \<Rightarrow> real \<times> int" where
  "float_normalise 0 m e = (m, e)"
| "float_normalise (Suc n) m e =
     (if m < 8388608 \<and> -149 < e then float_normalise n (m * 2) (e - 1)
      else if 16777216 \<le> m then float_normalise n (m / 2) (e + 1)
      else (m, e))"

definition to_float :: "real \<Rightarrow> real" where
  "to_float x =
     (if x = 0 then 0
      else (let (m, e) = float_normalise 400 \<bar>x\<bar> 0;
                r = round_ties_even m
            in sgn x * (if 0 \<le> e then of_int r * 2 ^ nat e else of_int r / 2 ^ nat (- e))))"

text \<open>The range of \<open>int\<close>.\<close>

definition int_ok :: "int \<Rightarrow> bool" where
  "int_ok v = (-2147483648 \<le> v \<and> v \<le> 2147483647)"

text \<open>
  The framework's chip object \<open>PrimaryCCD\<close>: sensor resolution, the selected frame, binning,
  bits per pixel and the frame buffer. The length of \<open>FrameBuffer\<close> is what
  \<open>getFrameBufferSize\<close> returns.
\<close>

record CCDChip =
  XRes :: int
  YRes :: int
  SubX :: int
  SubY :: int
  SubW :: int
  SubH :: int
  BinX :: int
  BinY :: int
  BPP :: int
  ExposureDuration :: real
  FrameBuffer :: "byte list"

text \<open>
  The members of \<open>ToupBase\<close> that the exposure and frame functions touch.
  \<open>m_CaptureTimeout\<close> is the single-shot timer object: \<open>Some ms\<close> while it is armed
  with interval \<open>ms\<close>, \<open>None\<close> while it is stopped. \<open>ResolutionSP_index\<close> is what
  \<open>IUFindOnSwitchIndex(&ResolutionSP)\<close> returns, \<open>TimeoutFactorN\<close> the value of
  \<open>TimeoutFactorN[0]\<close>.

  The class header is not among the sources. \<open>MIN_DOWNLOAD_ESTIMATION\<close> is a constant
  declared there; it is carried as a member that no function writes. The two counters are
  declared there too; here they are natural numbers. They are only ever set to 0 or
  incremented, and \<open>m_CaptureTimeoutCounter\<close> is reset before it exceeds 2, so whatever
  width they have, they do not wrap.
\<close>

record ToupBase =
  isConnected :: bool
  PrimaryCCD :: CCDChip
  Streamer_isStreaming :: bool
  Streamer_isRecording :: bool
  InExposure :: bool
  ExposureRequest :: real
  ExposureEnd :: timeval
  m_CurrentTriggerMode :: trigger_mode
  m_CanSnap :: bool
  ResolutionSP_index :: int
  m_TimeoutRetries :: nat
  m_CaptureTimeoutCounter :: nat
  m_CaptureTimeout :: "int option"
  m_DownloadEstimation :: real
  MIN_DOWNLOAD_ESTIMATION :: real
  TimeoutFactorN :: real
  m_MonoCamera :: bool
  m_CurrentVideoFormat :: video_format
  m_Channels :: int
  m_BitsPerPixel :: int
  m_MaxBitDepth :: int
  calls :: "call list"

definition emit :: "call list \<Rightarrow> ToupBase \<Rightarrow> ToupBase" where
  "emit cs s = s\<lparr>calls := calls s @ cs\<rparr>"

text \<open>What the SDK answers to the calls made while an exposure is started or retried.\<close>

record sdk_answers =
  rc_put_ExpoTime :: HRESULT
  rc_put_Option :: HRESULT
  rc_Snap :: HRESULT
  rc_Trigger :: HRESULT

text \<open>
  \<open>StartExposure\<close>; \<open>duration\<close> is a \<open>float\<close>, so that \<open>duration * 1000000.0f\<close> and
  \<open>duration * 1000\<close> are single-precision products, and \<open>current_time\<close> is what
  \<open>gettimeofday\<close> returns. The result of \<open>put_Option\<close> is only logged. Three of its
  blocks are definitions of their own: the block under "Only update exposure when
  necessary" (without its early return), the block that forces the software trigger mode,
  and the block under "Snap still image".
\<close>

definition update_exposure_time :: "real \<Rightarrow> 32 word \<Rightarrow> ToupBase \<Rightarrow> ToupBase" where
  "update_exposure_time duration uSecs s =
     (if ExposureRequest s \<noteq> duration
      then emit [SDK_put_ExpoTime uSecs] (s\<lparr>ExposureRequest := duration\<rparr>)
      else s)"

definition force_software_trigger :: "ToupBase \<Rightarrow> ToupBase" where
  "force_software_trigger s =
     (if m_CurrentTriggerMode s \<noteq> TRIGGER_SOFTWARE
      then (emit [SDK_put_Option_TRIGGER 1] s)\<lparr>m_CurrentTriggerMode := TRIGGER_SOFTWARE\<rparr>
      else s)"

definition snap_still :: "sdk_answers \<Rightarrow> ToupBase \<Rightarrow> ToupBase" where
  "snap_still r s =
     (if m_CanSnap s
      then (if SUCCEEDED (rc_Snap r)
            then emit [SDK_Snap (ResolutionSP_index s)] s
            else (emit [SDK_Snap (ResolutionSP_index s)] s)\<lparr>m_CanSnap := False\<rparr>)
      else s)"

definition StartExposure :: "real \<Rightarrow> timeval \<Rightarrow> sdk_answers \<Rightarrow> ToupBase \<Rightarrow> bool \<times> ToupBase" where
  "StartExposure duration current_time r s =
     (let s0 = s\<lparr>PrimaryCCD := (PrimaryCCD s)\<lparr>ExposureDuration := duration\<rparr>\<rparr>;
          uSecs = (word_of_int (trunc_toward_zero (to_float (duration * 1000000))) :: 32 word);
          s1 = update_exposure_time duration uSecs s0
      in if ExposureRequest s0 \<noteq> duration \<and> FAILED (rc_put_ExpoTime r) then (False, s1)
         else
          (let exposure_time = \<lparr>tv_sec = uint uSecs div 1000000, tv_usec = uint uSecs mod 1000000\<rparr>;
               s2 = s1\<lparr>ExposureEnd := timeradd current_time exposure_time, InExposure := True\<rparr>;
               s3 = force_software_trigger s2;
               capturedStarted = (m_CanSnap s3 \<and> SUCCEEDED (rc_Snap r));
               s4 = snap_still r s3;
               s5 = (if \<not> capturedStarted then emit [SDK_Trigger 1] s4 else s4)
           in if \<not> capturedStarted \<and> FAILED (rc_Trigger r) then (False, s5)
              else
               (let ms = trunc_toward_zero
                           (to_float (duration * 1000) +
                            m_DownloadEstimation s5 * TimeoutFactorN s5)
                in (True, (emit [CaptureTimeout_start ms] s5)\<lparr>m_CaptureTimeout := Some ms\<rparr>))))"

definition AbortExposure :: "ToupBase \<Rightarrow> bool \<times> ToupBase" where
  "AbortExposure s =
     (True,
      (emit [SDK_Trigger 0, CaptureTimeout_stop] s)
        \<lparr>InExposure := False,
         m_TimeoutRetries := 0,
         m_CaptureTimeoutCounter := 0,
         m_CaptureTimeout := None\<rparr>)"

text \<open>
  \<open>captureTimeoutHandler\<close>, the function bound to the capture timeout in the constructor.
  \<open>ExposureRequest\<close> is a \<open>float\<close> like \<open>duration\<close> (the driver casts it to \<open>double\<close>
  where it logs it), so that \<open>ExposureRequest * 1000\<close> is a single-precision product too.
\<close>

definition captureTimeoutHandler :: "sdk_answers \<Rightarrow> ToupBase \<Rightarrow> ToupBase" where
  "captureTimeoutHandler r s =
     (if \<not> isConnected s then s
      else
       (let s1 = s\<lparr>m_CaptureTimeoutCounter := m_CaptureTimeoutCounter s + 1\<rparr>
        in if m_CaptureTimeoutCounter s1 \<ge> 3
           then emit [CCD_setExposureFailed] (s1\<lparr>m_CaptureTimeoutCounter := 0\<rparr>)
           else if m_CanSnap s1 \<and> FAILED (rc_Snap r)
           then emit [SDK_Snap (ResolutionSP_index s1)] s1
           else
            (let s2 = (if m_CanSnap s1 then emit [SDK_Snap (ResolutionSP_index s1)] s1 else s1);
                 s3 = emit [SDK_Trigger 1] s2
             in if FAILED (rc_Trigger r) then s3
                else
                 (let ms = trunc_toward_zero
                             (to_float (ExposureRequest s3 * 1000) +
                              m_DownloadEstimation s3 * TimeoutFactorN s3)
                  in (emit [CaptureTimeout_start ms] s3)\<lparr>m_CaptureTimeout := Some ms\<rparr>))))"



subsection \<open>Frame delivery\<close>

text \<open>
  The loop that separates interleaved RGB into an R, a G and a B plane. \<open>buffer\<close> holds
  the interleaved bytes; \<open>subR\<close>, \<open>subG\<close> and \<open>subB\<close> are the three write pointers, as
  offsets into the frame buffer \<open>img\<close> (\<open>image\<close> in the source). The two buffers are distinct allocations.
\<close>

function rgb_loop ::
  "int \<Rightarrow> int \<Rightarrow> nat \<Rightarrow> nat \<Rightarrow> nat \<Rightarrow> byte list \<Rightarrow> byte list \<Rightarrow> fault + byte list" where
  "rgb_loop i totalSize subR subG subB buffer img =
     (if i \<le> totalSize
      then (if i < 0 \<or> length buffer \<le> nat i + 2 \<or> length img \<le> subR \<or>
               length img \<le> subG \<or> length img \<le> subB
            then Inl OutOfBounds
            else if i + 3 > 2147483647 then Inl SignedOverflow
            else rgb_loop (i + 3) totalSize (Suc subR) (Suc subG) (Suc subB) buffer
                   (img[subR := buffer ! nat i,
                          subG := buffer ! nat (i + 1),
                          subB := buffer ! nat (i + 2)]))
      else Inr img)"
  by pat_completeness auto
termination
  by (relation "measure (\<lambda>(i, totalSize, subR, subG, subB, buffer, img). nat (totalSize + 1 - i))") auto

text \<open>
  The block around the loop, the same text in \<open>pushCallback\<close> and in both img cases of
  \<open>eventPullCallBack\<close>: \<open>width\<close> and \<open>height\<close> are \<open>uint32_t\<close>, the loop bound
  \<open>width * height * 3 - 3\<close> is computed in \<open>uint32_t\<close> and stored in an \<open>int\<close>.
\<close>

definition rgb_to_planes :: "32 word \<Rightarrow> 32 word \<Rightarrow> byte list \<Rightarrow> byte list \<Rightarrow> fault + byte list" where
  "rgb_to_planes width height buffer img =
     rgb_loop 0 (sint (width * height * 3 - 3))
       0 (unat (width * height)) (unat (width * height * 2)) buffer img"

text \<open>
  The driver only separates the planes; nothing in it puts them together again. The
  round-trip law of the spec needs that direction too: \<open>spec_planes_to_rgb n\<close> follows the
  words of the spec and reads \<open>n\<close> pixels back from three planes of \<open>n\<close> bytes each, for
  every pixel its R, G and B byte, in this order.
\<close>

definition spec_planes_to_rgb :: "nat \<Rightarrow> byte list \<Rightarrow> byte list" where
  "spec_planes_to_rgb n img = concat (map (\<lambda>k. [img ! k, img ! (n + k), img ! (2 * n + k)]) [0..<n])"

text \<open>The frame metadata that the SDK passes along with the pixels; the driver logs it.\<close>

record FrameInfoV2 =
  info_width :: "32 word"
  info_height :: "32 word"
  info_flag :: "32 word"
  info_timestamp :: int

text \<open>
  \<open>deliver_rgb\<close> is the de-interleaving block with the geometry it reads from the chip.
\<close>

definition deliver_rgb :: "byte list \<Rightarrow> ToupBase \<Rightarrow> fault + ToupBase" where
  "deliver_rgb buffer s =
     (let chip = PrimaryCCD s
      in if BinX chip = 0 \<or> BinY chip = 0 then Inl DivisionByZero
         else
          (let width = (word_of_int (SubW chip sdiv BinX chip * (BPP chip sdiv 8)) :: 32 word);
               height = (word_of_int (SubH chip sdiv BinY chip * (BPP chip sdiv 8)) :: 32 word)
           in case rgb_to_planes width height buffer (FrameBuffer chip) of
                Inl f \<Rightarrow> Inl f
              | Inr img \<Rightarrow> Inr (s\<lparr>PrimaryCCD := chip\<lparr>FrameBuffer := img\<rparr>\<rparr>)))"

definition download_estimate :: "timeval \<Rightarrow> ToupBase \<Rightarrow> ToupBase" where
  "download_estimate curtime s =
     (let diff = timersub curtime (ExposureEnd s);
          s1 = s\<lparr>m_DownloadEstimation :=
                    real_of_int (tv_sec diff * 1000) + real_of_int (tv_usec diff) / 1000\<rparr>
      in if m_DownloadEstimation s1 < MIN_DOWNLOAD_ESTIMATION s1
         then s1\<lparr>m_DownloadEstimation := MIN_DOWNLOAD_ESTIMATION s1\<rparr>
         else s1)"

text \<open>
  \<open>pushCallback\<close>. \<open>pData\<close> is \<open>None\<close> for a null pointer and otherwise the bytes that
  can be read from the pointer; \<open>curtime\<close> is what \<open>gettimeofday\<close> returns.
\<close>

definition pushCallback ::
  "byte list option \<Rightarrow> FrameInfoV2 \<Rightarrow> int \<Rightarrow> timeval \<Rightarrow> ToupBase \<Rightarrow> fault + ToupBase" where
  "pushCallback pData pInfo bSnap curtime s =
     (if Streamer_isStreaming s \<or> Streamer_isRecording s
      then Inr (emit [Streamer_newFrame pData (length (FrameBuffer (PrimaryCCD s)))] s)
      else if InExposure s
      then
       (let s1 = (emit [CaptureTimeout_stop] s)\<lparr>m_CaptureTimeoutCounter := 0, m_CaptureTimeout := None\<rparr>;
            s2 = download_estimate curtime s1;
            s3 = emit [CCD_setExposureLeft 0] (s2\<lparr>InExposure := False\<rparr>);
            chip = PrimaryCCD s3;
            rgb = (m_MonoCamera s3 = False \<and> m_CurrentVideoFormat s3 = TC_VIDEO_COLOR_RGB);
            size = (if rgb then unat (word_of_int (XRes chip * YRes chip * 3) :: 32 word)
                    else length (FrameBuffer chip))
        in case pData of
             None \<Rightarrow> Inr (emit [CCD_setExposureFailed] s3)
           | Some data \<Rightarrow>
              (if length data < size then Inl OutOfBounds
               else if rgb
               then (case deliver_rgb (take size data) s3 of
                       Inl f \<Rightarrow> Inl f
                     | Inr s4 \<Rightarrow> Inr (emit [ExposureComplete] s4))
               else Inr (emit [ExposureComplete]
                           (s3\<lparr>PrimaryCCD := chip\<lparr>FrameBuffer := take size data\<rparr>\<rparr>))))
      else Inr s)"

text \<open>
  \<open>eventPullCallBack\<close>. The cases \<open>EVENT_IMAGE\<close> and \<open>EVENT_STILLIMAGE\<close> have the same
  text after their first lines, apart from the SDK function that pulls the frame;
  \<open>pull_frame\<close> is that text. \<open>rc\<close> is what the pull returns and \<open>pulled\<close> the content
  of the destination buffer when it returns (the frame buffer or, in RGB mode, the scratch
  buffer of \<open>XRes * YRes * 3\<close> bytes).
\<close>

datatype sdk_event =
    EVENT_EXPOSURE | EVENT_TEMPTINT | EVENT_IMAGE | EVENT_STILLIMAGE | EVENT_WBGAIN
  | EVENT_TRIGGERFAIL | EVENT_BLACK | EVENT_FFC | EVENT_DFC | EVENT_ERROR
  | EVENT_DISCONNECTED | EVENT_NOFRAMETIMEOUT | EVENT_FACTORY | EVENT_unlisted

definition pull_frame :: "bool \<Rightarrow> HRESULT \<Rightarrow> byte list \<Rightarrow> ToupBase \<Rightarrow> fault + ToupBase" where
  "pull_frame still rc pulled s =
     (let captureBits = (if m_BitsPerPixel s = 8 then 8 else m_MaxBitDepth s);
          pull = (if still then SDK_PullStillImageV2 (captureBits * m_Channels s)
                  else SDK_PullImageV2 (captureBits * m_Channels s))
      in if Streamer_isStreaming s \<or> Streamer_isRecording s
         then
          (let s1 = (emit [pull] s)\<lparr>PrimaryCCD := (PrimaryCCD s)\<lparr>FrameBuffer := pulled\<rparr>\<rparr>
           in Inr (if SUCCEEDED rc then emit [Streamer_newFrame (Some pulled) (length pulled)] s1
                   else s1))
         else if InExposure s
         then
          (let s1 = emit [CCD_setExposureLeft 0] (s\<lparr>InExposure := False\<rparr>);
               rgb = (m_MonoCamera s1 = False \<and> m_CurrentVideoFormat s1 = TC_VIDEO_COLOR_RGB);
               s2 = emit [pull]
                      (if rgb then s1
                       else s1\<lparr>PrimaryCCD := (PrimaryCCD s1)\<lparr>FrameBuffer := pulled\<rparr>\<rparr>)
           in if FAILED rc then Inr (emit [CCD_setExposureFailed] s2)
              else if rgb
              then (case deliver_rgb pulled s2 of
                      Inl f \<Rightarrow> Inl f
                    | Inr s3 \<Rightarrow> Inr (emit [ExposureComplete] s3))
              else Inr (emit [ExposureComplete] s2))
         else Inr (emit [SDK_Flush] s))"

definition eventPullCallBack ::
  "sdk_event \<Rightarrow> timeval \<Rightarrow> HRESULT \<Rightarrow> byte list \<Rightarrow> ToupBase \<Rightarrow> fault + ToupBase" where
  "eventPullCallBack event curtime rc pulled s =
     (case event of
        EVENT_EXPOSURE \<Rightarrow>
          Inr ((emit [CaptureTimeout_stop] s)\<lparr>m_CaptureTimeoutCounter := 0, m_CaptureTimeout := None\<rparr>)
      | EVENT_IMAGE \<Rightarrow>
          (let s1 = (emit [CaptureTimeout_stop] s)\<lparr>m_CaptureTimeoutCounter := 0, m_CaptureTimeout := None\<rparr>;
               s2 = download_estimate curtime s1
           in pull_frame False rc pulled (s2\<lparr>m_TimeoutRetries := 0\<rparr>))
      | EVENT_STILLIMAGE \<Rightarrow>
          (let s1 = (emit [CaptureTimeout_stop] s)\<lparr>m_CaptureTimeoutCounter := 0, m_CaptureTimeout := None\<rparr>
           in pull_frame True rc pulled (s1\<lparr>m_TimeoutRetries := 0\<rparr>))
      | EVENT_NOFRAMETIMEOUT \<Rightarrow> Inr (emit [CCD_setExposureFailed] s)
      | _ \<Rightarrow> Inr s)"

subsection \<open>Region of interest\<close>

text \<open>
  \<open>setFrameBufferSize\<close> of the framework reallocates the frame buffer; bytes it adds are
  not initialised in C and are 0 here.
\<close>

definition setFrameBufferSize :: "nat \<Rightarrow> byte list \<Rightarrow> byte list" where
  "setFrameBufferSize nbuf buf = take nbuf buf @ replicate (nbuf - length buf) 0"

text \<open>
  \<open>UpdateCCDFrame\<close>. C's \<open>%\<close> and \<open>/\<close> on \<open>int\<close> truncate towards zero (\<open>smod\<close>,
  \<open>sdiv\<close>); \<open>x - x % 2\<close> cannot leave the range of \<open>int\<close>. \<open>rc\<close> is what \<open>put_Roi\<close>
  returns. The buffer size \<open>(w * h * BPP / 8) * m_Channels\<close> is computed in \<open>int\<close>, from
  left to right, and then stored in a \<open>uint32_t\<close>: a product that leaves the range of
  \<open>int\<close> is a fault, and so is a quotient that does (the least \<open>int\<close> divided by -1).
\<close>

definition UpdateCCDFrame ::
  "int \<Rightarrow> int \<Rightarrow> int \<Rightarrow> int \<Rightarrow> HRESULT \<Rightarrow> ToupBase \<Rightarrow> fault + bool \<times> ToupBase" where
  "UpdateCCDFrame x0 y0 w0 h0 rc s =
     (let x = x0 - x0 smod 2;
          y = y0 - y0 smod 2;
          w = w0 - w0 smod 2;
          h = h0 - h0 smod 2;
          chip = PrimaryCCD s
      in if w > XRes chip then Inr (False, s)
         else if h > YRes chip then Inr (False, s)
         else
          (let s1 = emit [SDK_put_Roi x y w h] s
           in if FAILED rc then Inr (False, s1)
              else if int_ok (w * h) \<and> int_ok (w * h * BPP chip) \<and>
                      int_ok ((w * h * BPP chip) sdiv 8 * m_Channels s1)
              then
               (let nbuf = (word_of_int ((w * h * BPP chip) sdiv 8 * m_Channels s1) :: 32 word);
                    chip' = chip\<lparr>SubX := x, SubY := y, SubW := w, SubH := h,
                                  FrameBuffer := setFrameBufferSize (unat nbuf) (FrameBuffer chip)\<rparr>;
                    s2 = s1\<lparr>PrimaryCCD := chip', m_DownloadEstimation := 10000\<rparr>
                in if BinX chip' = 0 \<or> BinY chip' = 0 then Inl DivisionByZero
                   else if int_ok (w sdiv BinX chip') \<and> int_ok (h sdiv BinY chip')
                   then Inr (True, emit [Streamer_setSize (w sdiv BinX chip') (h sdiv BinY chip')] s2)
                   else Inl SignedOverflow)
              else Inl SignedOverflow))"

text \<open>
  The rounding that the spec asks of \<open>UpdateCCDFrame\<close>, in the words of the spec: a value
  rounded down to the nearest even number.
\<close>

definition spec_round_down_even :: "int \<Rightarrow> int" where
  "spec_round_down_even v = 2 * (v div 2)"

subsection \<open>Time in milliseconds\<close>

text \<open>A \<open>timeval\<close> read as milliseconds, to state what the download estimate is.\<close>

definition millis :: "timeval \<Rightarrow> real" where
  "millis t = real_of_int (tv_sec t) * 1000 + real_of_int (tv_usec t) / 1000"

subsection \<open>Counting in the trace\<close>



definition failures :: "ToupBase \<Rightarrow> nat" where
  "failures s = length (filter (\<lambda>c. c = CCD_setExposureFailed) (calls s))"

subsection \<open>Concrete states\<close>

text \<open>
  States on which the theorems below are evaluated: a camera with dual gain in Low mode
  with the default threshold 900 and ratio 4.5; a connected mono camera with a 4 x 4 sensor,
  idle, with the default timeout factor 1.2.
\<close>

definition gain0 :: GainModel where
  "gain0 = \<lparr>m_hasDualGain = True,
            GainConversionN = (\<lambda>_. 0)(TC_HCG_THRESHOLD := 900, TC_HCG_LCG_RATIO := 4.5),
            GainConversionS = IUResetSwitch(GAIN_LOW := ISS_ON),
            GainConversionSP_s = IPS_IDLE,
            m_NativeGain = 100,
            gain_calls = []\<rparr>"

text \<open>
  \<open>reconnected0\<close>: the same camera after the gain has been raised to 1000, which switches
  it to High, and the driver has connected again with the camera reporting the low
  conversion gain.
\<close>

definition reconnected0 :: GainModel where
  "reconnected0 =
     projr (setupParams_conversion_gain True (Some GAIN_LOW) (snd (setDualGainMode 1000 gain0)))"

definition chip0 :: CCDChip where
  "chip0 = \<lparr>XRes = 4, YRes = 4, SubX = 0, SubY = 0, SubW = 4, SubH = 4, BinX = 1, BinY = 1,
            BPP = 8, ExposureDuration = 0, FrameBuffer = replicate 16 0\<rparr>"

definition cam0 :: ToupBase where
  "cam0 = \<lparr>isConnected = True, PrimaryCCD = chip0,
           Streamer_isStreaming = False, Streamer_isRecording = False,
           InExposure = False, ExposureRequest = 0,
           ExposureEnd = \<lparr>tv_sec = 0, tv_usec = 0\<rparr>,
           m_CurrentTriggerMode = TRIGGER_SOFTWARE, m_CanSnap = False, ResolutionSP_index = 0,
           m_TimeoutRetries = 0, m_CaptureTimeoutCounter = 0, m_CaptureTimeout = None,
           m_DownloadEstimation = 5000, MIN_DOWNLOAD_ESTIMATION = 1000, TimeoutFactorN = 1.2,
           m_MonoCamera = True, m_CurrentVideoFormat = TC_VIDEO_COLOR_RGB,
           m_Channels = 1, m_BitsPerPixel = 8, m_MaxBitDepth = 8, calls = []\<rparr>"

definition sdk_ok :: sdk_answers where
  "sdk_ok = \<lparr>rc_put_ExpoTime = 0, rc_put_Option = 0, rc_Snap = 0, rc_Trigger = 0\<rparr>"

definition guide0 :: GuideModel where
  "guide0 = \<lparr>NStimerID = -1, NSDir = TOUPBASE_NORTH, NSDirName = [],
             WEtimerID = -1, WEDir = TOUPBASE_WEST, WEDirName = [], guide_calls = []\<rparr>"

text \<open>
  \<open>inflight0\<close>: \<open>cam0\<close> after a one-second exposure has been started at time 100 s.
  \<open>E_FAIL\<close> is the SDK's unspecified failure, \<open>0x80004005\<close> as a signed 32-bit value.
\<close>

definition inflight0 :: ToupBase where
  "inflight0 = snd (StartExposure 1 \<lparr>tv_sec = 100, tv_usec = 0\<rparr> sdk_ok cam0)"

text \<open>
  \<open>rgb0\<close>: a colour camera in RGB mode with a 2 x 2 sensor, with the same exposure in
  flight.
\<close>

definition chip_rgb :: CCDChip where
  "chip_rgb = \<lparr>XRes = 2, YRes = 2, SubX = 0, SubY = 0, SubW = 2, SubH = 2, BinX = 1, BinY = 1,
               BPP = 8, ExposureDuration = 1, FrameBuffer = replicate 12 0\<rparr>"

definition rgb0 :: ToupBase where
  "rgb0 = inflight0\<lparr>PrimaryCCD := chip_rgb, m_MonoCamera := False, m_Channels := 3\<rparr>"

text \<open>\<open>float_0_7\<close> is \<open>0.7f\<close>, the \<open>float\<close> nearest to 0.7.\<close>

definition float_0_7 :: real where
  "float_0_7 = 11744051 / 16777216"


section \<open>Theorems\<close>

subsection \<open>Dual gain\<close>

lemma ISState_not_off: "(s \<noteq> ISS_OFF) = (s = ISS_ON)"
  by (cases s) simp_all

text \<open>
  C4. \<open>dualGainEnabled\<close> is true exactly when the hardware supports dual gain, the HCG/LCG
  ratio is strictly greater than 1.0001 and the HDR switch is off; so it is false whenever
  the ratio is at most 1.0001 or the mode is HDR, and true otherwise on hardware with dual
  gain.
\<close>

theorem dualGainEnabled_iff:
  "dualGainEnabled g =
     (m_hasDualGain g \<and> \<not> (GainConversionN g TC_HCG_LCG_RATIO \<le> 1.0001 \<or>
                              GainConversionS g GAIN_HDR = ISS_ON))"
  by (cases "GainConversionS g GAIN_HDR") (auto simp: dualGainEnabled_def)

theorem dualGainEnabled_iff_witness:
  "dualGainEnabled gain0 \<and>
   \<not> dualGainEnabled (gain0\<lparr>GainConversionN := (GainConversionN gain0)(TC_HCG_LCG_RATIO := 1.0001)\<rparr>) \<and>
   \<not> dualGainEnabled (gain0\<lparr>GainConversionN := (GainConversionN gain0)(TC_HCG_LCG_RATIO := 0.9)\<rparr>) \<and>
   dualGainEnabled (gain0\<lparr>GainConversionN := (GainConversionN gain0)(TC_HCG_LCG_RATIO := 2)\<rparr>) \<and>
   \<not> dualGainEnabled (gain0\<lparr>GainConversionS := IUResetSwitch(GAIN_HDR := ISS_ON)\<rparr>) \<and>
   \<not> dualGainEnabled (gain0\<lparr>m_hasDualGain := False\<rparr>)"
  using dualGainEnabled_iff [of gain0]
    dualGainEnabled_iff [of "gain0\<lparr>GainConversionN := (GainConversionN gain0)(TC_HCG_LCG_RATIO := 1.0001)\<rparr>"]
    dualGainEnabled_iff [of "gain0\<lparr>GainConversionN := (GainConversionN gain0)(TC_HCG_LCG_RATIO := 0.9)\<rparr>"]
    dualGainEnabled_iff [of "gain0\<lparr>GainConversionN := (GainConversionN gain0)(TC_HCG_LCG_RATIO := 2)\<rparr>"]
    dualGainEnabled_iff [of "gain0\<lparr>GainConversionS := IUResetSwitch(GAIN_HDR := ISS_ON)\<rparr>"]
    dualGainEnabled_iff [of "gain0\<lparr>m_hasDualGain := False\<rparr>"]
  by (simp add: gain0_def IUResetSwitch_def)

text \<open>
  Under the rule of the switch vector (at most one switch on), for every threshold and ratio,
  \<open>setDualGainMode gain\<close> with \<open>gain\<close> at or above the threshold leaves the mode at High
  and returns, and stores in \<open>m_NativeGain\<close>, \<open>gain\<close> divided by the ratio; with \<open>gain\<close>
  below the threshold it leaves the mode at Low and returns and stores \<open>gain\<close> unchanged.
  \<open>setDualGainMode\<close> keeps the rule, since it turns all switches off before it turns one on.
\<close>

lemma setDualGainMode_under_rule:
  assumes "one_of_many (GainConversionS g)"
  shows "(gain \<ge> GainConversionN g TC_HCG_THRESHOLD \<longrightarrow>
            mode_is GAIN_HIGH (snd (setDualGainMode gain g)) \<and>
            fst (setDualGainMode gain g) = gain / GainConversionN g TC_HCG_LCG_RATIO \<and>
            m_NativeGain (snd (setDualGainMode gain g)) = gain / GainConversionN g TC_HCG_LCG_RATIO) \<and>
         (gain < GainConversionN g TC_HCG_THRESHOLD \<longrightarrow>
            mode_is GAIN_LOW (snd (setDualGainMode gain g)) \<and>
            fst (setDualGainMode gain g) = gain \<and>
            m_NativeGain (snd (setDualGainMode gain g)) = gain)"
  using assms
  by (auto simp: setDualGainMode_def mode_is_def one_of_many_def IUResetSwitch_def Let_def
                 ISState_not_off)

lemma setDualGainMode_keeps_rule:
  "one_of_many (GainConversionS g) \<Longrightarrow> one_of_many (GainConversionS (snd (setDualGainMode gain g)))"
  by (auto simp: setDualGainMode_def one_of_many_def IUResetSwitch_def Let_def)

lemma gain0_fields:
  "GainConversionN gain0 TC_HCG_LCG_RATIO = 4.5 \<and> GainConversionN gain0 TC_HCG_THRESHOLD = 900 \<and>
   one_of_many (GainConversionS gain0) \<and> mode_is GAIN_LOW gain0"
  by (simp add: gain0_def one_of_many_def mode_is_def IUResetSwitch_def)

lemma high0_eval:
  "setDualGainMode 1000 gain0 =
     (1000 / 4.5,
      gain0\<lparr>GainConversionS := IUResetSwitch(GAIN_HIGH := ISS_ON),
            GainConversionSP_s := IPS_OK,
            m_NativeGain := 1000 / 4.5,
            gain_calls := [SDK_put_Option_CG GAIN_HIGH, IDSetSwitch_GainConversionSP]\<rparr>)"
  by (simp add: setDualGainMode_def gain0_def IUResetSwitch_def Let_def)

lemma reconnected0_eval:
  "reconnected0 =
     gain0\<lparr>GainConversionS := IUResetSwitch(GAIN_HIGH := ISS_ON, GAIN_LOW := ISS_ON),
           GainConversionSP_s := IPS_OK,
           m_NativeGain := 1000 / 4.5,
           gain_calls := [SDK_put_Option_CG GAIN_HIGH, IDSetSwitch_GainConversionSP,
                          SDK_get_Option_CG]\<rparr>"
  unfolding reconnected0_def high0_eval
  by (simp add: setupParams_conversion_gain_def Let_def gain0_def)

text \<open>
  C3. The scenario of the spec holds on a camera in Low mode: with ratio 4.5 and threshold
  900, \<open>setDualGainMode 1000\<close> switches to High and returns and stores 1000 / 4.5, between
  222 and 223. The claim as a whole does not hold on the code. When the driver connects
  again and the camera reports the low conversion gain, \<open>setupParams\<close> turns the Low switch
  on and leaves the High switch on. In that state dual gain counts as enabled, and
  \<open>setDualGainMode 100\<close>, below the threshold, skips both of its switching blocks, makes no
  call to the camera, leaves the High switch on and returns and stores 100 / 4.5 instead
  of 100.
\<close>

theorem setDualGainMode_after_reconnect:
  "mode_is GAIN_LOW gain0 \<and>
   mode_is GAIN_HIGH (snd (setDualGainMode 1000 gain0)) \<and>
   fst (setDualGainMode 1000 gain0) = 1000 / 4.5 \<and>
   m_NativeGain (snd (setDualGainMode 1000 gain0)) = 1000 / 4.5 \<and>
   222 < fst (setDualGainMode 1000 gain0) \<and> fst (setDualGainMode 1000 gain0) < 223 \<and>
   setupParams_conversion_gain True (Some GAIN_LOW) (snd (setDualGainMode 1000 gain0)) =
     Inr reconnected0 \<and>
   GainConversionS reconnected0 GAIN_LOW = ISS_ON \<and>
   GainConversionS reconnected0 GAIN_HIGH = ISS_ON \<and>
   GainConversionS reconnected0 GAIN_HDR = ISS_OFF \<and>
   \<not> one_of_many (GainConversionS reconnected0) \<and>
   dualGainEnabled reconnected0 \<and>
   GainConversionN reconnected0 TC_HCG_THRESHOLD = 900 \<and>
   GainConversionN reconnected0 TC_HCG_LCG_RATIO = 4.5 \<and>
   fst (setDualGainMode 100 reconnected0) = 100 / 4.5 \<and>
   fst (setDualGainMode 100 reconnected0) \<noteq> 100 \<and>
   m_NativeGain (snd (setDualGainMode 100 reconnected0)) = 100 / 4.5 \<and>
   GainConversionS (snd (setDualGainMode 100 reconnected0)) GAIN_HIGH = ISS_ON \<and>
   \<not> mode_is GAIN_LOW (snd (setDualGainMode 100 reconnected0)) \<and>
   gain_calls (snd (setDualGainMode 100 reconnected0)) = gain_calls reconnected0"
proof -
  have a: "mode_is GAIN_LOW gain0"
    using gain0_fields by simp
  have b: "mode_is GAIN_HIGH (snd (setDualGainMode 1000 gain0)) \<and>
           fst (setDualGainMode 1000 gain0) = 1000 / 4.5 \<and>
           m_NativeGain (snd (setDualGainMode 1000 gain0)) = 1000 / 4.5 \<and>
           222 < fst (setDualGainMode 1000 gain0) \<and> fst (setDualGainMode 1000 gain0) < 223"
    by (simp add: high0_eval mode_is_def one_of_many_def IUResetSwitch_def)
  have c: "setupParams_conversion_gain True (Some GAIN_LOW) (snd (setDualGainMode 1000 gain0)) =
             Inr reconnected0"
    by (simp add: reconnected0_def setupParams_conversion_gain_def Let_def)
  have d: "GainConversionS reconnected0 GAIN_LOW = ISS_ON \<and>
           GainConversionS reconnected0 GAIN_HIGH = ISS_ON \<and>
           GainConversionS reconnected0 GAIN_HDR = ISS_OFF \<and>
           \<not> one_of_many (GainConversionS reconnected0) \<and>
           dualGainEnabled reconnected0 \<and>
           GainConversionN reconnected0 TC_HCG_THRESHOLD = 900 \<and>
           GainConversionN reconnected0 TC_HCG_LCG_RATIO = 4.5"
    by (simp add: reconnected0_eval gain0_def one_of_many_def dualGainEnabled_def IUResetSwitch_def)
  have e: "setDualGainMode 100 reconnected0 = (100 / 4.5, reconnected0\<lparr>m_NativeGain := 100 / 4.5\<rparr>)"
    by (simp add: setDualGainMode_def reconnected0_eval gain0_def IUResetSwitch_def Let_def)
  have f: "fst (setDualGainMode 100 reconnected0) = 100 / 4.5 \<and>
           fst (setDualGainMode 100 reconnected0) \<noteq> 100 \<and>
           m_NativeGain (snd (setDualGainMode 100 reconnected0)) = 100 / 4.5 \<and>
           GainConversionS (snd (setDualGainMode 100 reconnected0)) GAIN_HIGH = ISS_ON \<and>
           \<not> mode_is GAIN_LOW (snd (setDualGainMode 100 reconnected0)) \<and>
           gain_calls (snd (setDualGainMode 100 reconnected0)) = gain_calls reconnected0"
    using d by (simp add: e mode_is_def)
  from a b c d f show ?thesis by blast
qed

subsection \<open>Abort\<close>

text \<open>
  C6. \<open>AbortExposure\<close>, from any state, cancels the hardware trigger (\<open>Trigger\<close> with
  argument 0), stops the capture timeout, clears the in-exposure flag, sets the retry
  counter and the timeout counter to 0, and returns true.
\<close>

theorem AbortExposure_effect:
  "fst (AbortExposure s) = True \<and>
   calls (snd (AbortExposure s)) = calls s @ [SDK_Trigger 0, CaptureTimeout_stop] \<and>
   InExposure (snd (AbortExposure s)) = False \<and>
   m_TimeoutRetries (snd (AbortExposure s)) = 0 \<and>
   m_CaptureTimeoutCounter (snd (AbortExposure s)) = 0 \<and>
   m_CaptureTimeout (snd (AbortExposure s)) = None"
  by (simp add: AbortExposure_def emit_def)

subsection \<open>Capture timeout\<close>

















lemma handler_failures:
  "m_CaptureTimeoutCounter s + 1 < 3 \<Longrightarrow> failures (captureTimeoutHandler r s) = failures s"
  by (simp add: captureTimeoutHandler_def emit_def Let_def failures_def)

lemma handler_counter_bound:
  "m_CaptureTimeoutCounter s \<le> 2 \<Longrightarrow> m_CaptureTimeoutCounter (captureTimeoutHandler r s) \<le> 2"
  by (simp add: captureTimeoutHandler_def emit_def Let_def)






text \<open>Single-precision products that the concrete states need.\<close>

lemma to_float_values:
  "to_float 1000000 = 1000000"
  "to_float 1000 = 1000"
  "to_float (float_0_7 * 1000000) = 700000"
  "to_float (float_0_7 * 1000) = 700"
  "to_float (7 / 10) = float_0_7"
  by code_simp+

lemma inflight0_eval:
  "inflight0 =
     cam0\<lparr>PrimaryCCD := chip0\<lparr>ExposureDuration := 1\<rparr>,
          InExposure := True, ExposureRequest := 1,
          ExposureEnd := \<lparr>tv_sec = 101, tv_usec = 0\<rparr>,
          m_CaptureTimeout := Some 7000,
          calls := [SDK_put_ExpoTime 1000000, SDK_Trigger 1, CaptureTimeout_start 7000]\<rparr>"
  by (simp add: inflight0_def StartExposure_def update_exposure_time_def force_software_trigger_def
                snap_still_def emit_def Let_def cam0_def chip0_def sdk_ok_def FAILED_def
                SUCCEEDED_def trunc_toward_zero_def timeradd_def to_float_values)

lemma StartExposure_float_0_7:
  "StartExposure float_0_7 \<lparr>tv_sec = 100, tv_usec = 0\<rparr> sdk_ok cam0 =
     (True,
      cam0\<lparr>PrimaryCCD := chip0\<lparr>ExposureDuration := float_0_7\<rparr>,
           InExposure := True, ExposureRequest := float_0_7,
           ExposureEnd := \<lparr>tv_sec = 100, tv_usec = 700000\<rparr>,
           m_CaptureTimeout := Some 6700,
           calls := [SDK_put_ExpoTime 700000, SDK_Trigger 1, CaptureTimeout_start 6700]\<rparr>)"
proof -
  have "float_0_7 \<noteq> 0"
    by (simp add: float_0_7_def)
  then show ?thesis
    by (simp add: StartExposure_def update_exposure_time_def force_software_trigger_def
                  snap_still_def emit_def Let_def cam0_def chip0_def sdk_ok_def FAILED_def
                  SUCCEEDED_def trunc_toward_zero_def timeradd_def to_float_values)
qed





subsection \<open>A timeout after an abort\<close>




subsection \<open>RGB planes\<close>

text \<open>The invariant of the loop: after \<open>k\<close> pixels, the pixels from \<open>k\<close> on are still to be written.\<close>

lemma rgb_loop_planes:
  assumes "k \<le> n" "3 * n \<le> length buffer" "3 * n \<le> length img" "3 * int n \<le> 2147483647"
  shows "\<exists>img'. rgb_loop (3 * int k) (3 * int n - 3) k (n + k) (2 * n + k) buffer img = Inr img' \<and>
           length img' = length img \<and>
           (\<forall>j. k \<le> j \<and> j < n \<longrightarrow>
                img' ! j = buffer ! (3 * j) \<and>
                img' ! (n + j) = buffer ! (3 * j + 1) \<and>
                img' ! (2 * n + j) = buffer ! (3 * j + 2)) \<and>
           (\<forall>j. j < k \<longrightarrow>
                img' ! j = img ! j \<and> img' ! (n + j) = img ! (n + j) \<and>
                img' ! (2 * n + j) = img ! (2 * n + j))"
  using assms
proof (induction "n - k" arbitrary: k img)
  case 0
  then have "k = n" by simp
  then show ?case
    by (subst rgb_loop.simps) auto
next
  case (Suc m)
  then have kn: "k < n" by simp
  let ?img = "img[k := buffer ! nat (3 * int k),
                  n + k := buffer ! nat (3 * int k + 1),
                  2 * n + k := buffer ! nat (3 * int k + 2)]"
  have step: "rgb_loop (3 * int k) (3 * int n - 3) k (n + k) (2 * n + k) buffer img =
              rgb_loop (3 * int (Suc k)) (3 * int n - 3) (Suc k) (n + Suc k) (2 * n + Suc k) buffer ?img"
    using kn Suc.prems
    by (subst rgb_loop.simps) (simp add: algebra_simps nat_add_distrib nat_mult_distrib)
  have "m = n - Suc k" using Suc.hyps(2) by simp
  moreover have "Suc k \<le> n" using kn by simp
  moreover have "3 * n \<le> length ?img" using Suc.prems by simp
  ultimately obtain img' where
    r: "rgb_loop (3 * int (Suc k)) (3 * int n - 3) (Suc k) (n + Suc k) (2 * n + Suc k) buffer ?img = Inr img'"
    and l: "length img' = length ?img"
    and w: "\<forall>j. Suc k \<le> j \<and> j < n \<longrightarrow>
                img' ! j = buffer ! (3 * j) \<and>
                img' ! (n + j) = buffer ! (3 * j + 1) \<and>
                img' ! (2 * n + j) = buffer ! (3 * j + 2)"
    and u: "\<forall>j. j < Suc k \<longrightarrow>
                img' ! j = ?img ! j \<and> img' ! (n + j) = ?img ! (n + j) \<and>
                img' ! (2 * n + j) = ?img ! (2 * n + j)"
    using Suc.hyps(1) [of "Suc k" ?img] Suc.prems by blast
  have at_k: "?img ! k = buffer ! (3 * k) \<and> ?img ! (n + k) = buffer ! (3 * k + 1) \<and>
              ?img ! (2 * n + k) = buffer ! (3 * k + 2)"
    using kn Suc.prems by (simp add: nat_add_distrib nat_mult_distrib)
  have below: "?img ! j = img ! j \<and> ?img ! (n + j) = img ! (n + j) \<and>
               ?img ! (2 * n + j) = img ! (2 * n + j)" if "j < k" for j
    using that kn by simp
  show ?case
  proof (intro exI conjI allI impI)
    show "rgb_loop (3 * int k) (3 * int n - 3) k (n + k) (2 * n + k) buffer img = Inr img'"
      using step r by simp
    show "length img' = length img" using l by simp
  next
    fix j assume "k \<le> j \<and> j < n"
    then consider "j = k" | "Suc k \<le> j \<and> j < n" by linarith
    then have "img' ! j = buffer ! (3 * j) \<and> img' ! (n + j) = buffer ! (3 * j + 1) \<and>
               img' ! (2 * n + j) = buffer ! (3 * j + 2)"
    proof cases
      case 1
      then show ?thesis using u at_k by simp
    next
      case 2
      then show ?thesis using w by blast
    qed
    then show "img' ! j = buffer ! (3 * j)" "img' ! (n + j) = buffer ! (3 * j + 1)"
      "img' ! (2 * n + j) = buffer ! (3 * j + 2)" by simp_all
  next
    fix j assume "j < k"
    then have "img' ! j = img ! j \<and> img' ! (n + j) = img ! (n + j) \<and>
               img' ! (2 * n + j) = img ! (2 * n + j)"
      using u below [of j] by simp
    then show "img' ! j = img ! j" "img' ! (n + j) = img ! (n + j)"
      "img' ! (2 * n + j) = img ! (2 * n + j)" by simp_all
  qed
qed

lemma triples_take:
  "3 * n \<le> length b \<Longrightarrow>
   concat (map (\<lambda>k. [b ! (3 * k), b ! (3 * k + 1), b ! (3 * k + 2)]) [0..<n]) = take (3 * n) b"
proof (induction n)
  case 0
  then show ?case by simp
next
  case (Suc n)
  then have "take (3 * Suc n) b = take (3 * n) b @ [b ! (3 * n), b ! (3 * n + 1), b ! (3 * n + 2)]"
    by (simp add: take_Suc_conv_app_nth numeral_3_eq_3)
  with Suc show ?case by simp
qed

lemma spec_planes_to_rgb_eq:
  assumes "\<forall>j. j < n \<longrightarrow> img ! j = b ! (3 * j) \<and> img ! (n + j) = b ! (3 * j + 1) \<and>
                     img ! (2 * n + j) = b ! (3 * j + 2)"
      and "length b = 3 * n"
  shows "spec_planes_to_rgb n img = b"
proof -
  have "map (\<lambda>k. [img ! k, img ! (n + k), img ! (2 * n + k)]) [0..<n] =
        map (\<lambda>k. [b ! (3 * k), b ! (3 * k + 1), b ! (3 * k + 2)]) [0..<n]"
    using assms(1) by (intro map_cong) simp_all
  then have "spec_planes_to_rgb n img =
             concat (map (\<lambda>k. [b ! (3 * k), b ! (3 * k + 1), b ! (3 * k + 2)]) [0..<n])"
    unfolding spec_planes_to_rgb_def by (rule arg_cong)
  also have "\<dots> = take (3 * n) b"
    using assms(2) by (intro triples_take) simp
  also have "\<dots> = b"
    using assms(2) by simp
  finally show ?thesis .
qed

lemma plane_offsets:
  fixes w h :: "32 word"
  assumes n: "unat w * unat h = n" and b: "3 * n < 2 ^ 31"
  shows "unat (w * h) = n \<and> unat (w * h * 2) = 2 * n \<and> unat (w * h * 3) = 3 * n"
proof -
  have "unat w * unat h < 2 ^ LENGTH(32)"
    using n b by simp
  then have 1: "unat (w * h) = n"
    using n by (simp add: unat_mult_lem [THEN iffD1])
  have "unat (w * h) * unat (2 :: 32 word) < 2 ^ LENGTH(32)"
    using b 1 by simp
  then have "unat (w * h * 2) = unat (w * h) * unat (2 :: 32 word)"
    by (rule unat_mult_lem [THEN iffD1])
  then have 2: "unat (w * h * 2) = 2 * n"
    using 1 by simp
  have "unat (w * h) * unat (3 :: 32 word) < 2 ^ LENGTH(32)"
    using b 1 by simp
  then have "unat (w * h * 3) = unat (w * h) * unat (3 :: 32 word)"
    by (rule unat_mult_lem [THEN iffD1])
  then have 3: "unat (w * h * 3) = 3 * n"
    using 1 by simp
  from 1 2 3 show ?thesis by simp
qed

lemma loop_bound:
  fixes w h :: "32 word"
  assumes n: "unat w * unat h = n" and p: "0 < n" and b: "3 * n < 2 ^ 31"
  shows "sint (w * h * 3 - 3) = 3 * int n - 3"
proof -
  have u3: "unat (w * h * 3) = 3 * n"
    using plane_offsets [OF n b] by simp
  have "unat (3 :: 32 word) \<le> unat (w * h * 3)"
    using u3 p by simp
  then have "(3 :: 32 word) \<le> w * h * 3"
    by (simp add: word_le_nat_alt)
  then have "unat (w * h * 3 - 3) = unat (w * h * 3) - unat (3 :: 32 word)"
    by (rule unat_sub)
  then have u: "unat (w * h * 3 - 3) = 3 * n - 3"
    using u3 by simp
  have "uint (w * h * 3 - 3) = int (3 * n - 3)"
    using u by (simp add: uint_nat)
  also have "\<dots> = 3 * int n - 3"
    using p by simp
  finally have ui: "uint (w * h * 3 - 3) = 3 * int n - 3" .
  have lo: "- (2 ^ 31) \<le> 3 * int n - 3"
    using p by simp
  have "int (3 * n) < 2 ^ 31"
    using b by (simp only: of_nat_less_numeral_power_cancel_iff)
  then have hi: "3 * int n - 3 < 2 ^ 31"
    by simp
  have "sint (w * h * 3 - 3) = signed_take_bit 31 (uint (w * h * 3 - 3))"
    by (simp add: sint_uint)
  also have "\<dots> = signed_take_bit 31 (3 * int n - 3)"
    using ui by simp
  also have "\<dots> = 3 * int n - 3"
    using lo hi by (rule signed_take_bit_int_eq_self)
  finally show ?thesis .
qed

lemma overflow_loop:
  "rgb_to_planes 32768 32768 buffer img = Inr img"
  unfolding rgb_to_planes_def
  by (subst rgb_loop.simps) simp

lemma spec_planes_to_rgb_hd:
  "0 < n \<Longrightarrow> hd (spec_planes_to_rgb n img) = img ! 0"
  by (simp add: spec_planes_to_rgb_def upt_conv_Cons)

text \<open>
  C2, as the code has it. Let the width and the height be positive and so small that the
  loop bound \<open>width * height * 3 - 3\<close> fits the \<open>int\<close> that holds it
  (\<open>width * height * 3 < 2^31\<close>). De-interleaving a buffer of \<open>width * height * 3\<close> bytes
  into a frame buffer with room for the three planes makes no access out of bounds, keeps
  the size of the frame buffer, puts the bytes at the indices 0, 1 and 2 modulo 3 into the
  R, the G and the B plane, in order, and reading the three planes back pixel by pixel
  gives the buffer again.
\<close>

theorem rgb_round_trip:
  fixes w h :: "32 word"
  assumes "0 < unat w" and "0 < unat h" and "unat w * unat h * 3 < 2 ^ 31"
      and "length buffer = unat w * unat h * 3" and "unat w * unat h * 3 \<le> length img"
  shows "\<exists>img'. rgb_to_planes w h buffer img = Inr img' \<and> length img' = length img \<and>
           (\<forall>k < unat w * unat h.
               img' ! k = buffer ! (3 * k) \<and>
               img' ! (unat w * unat h + k) = buffer ! (3 * k + 1) \<and>
               img' ! (2 * (unat w * unat h) + k) = buffer ! (3 * k + 2)) \<and>
           spec_planes_to_rgb (unat w * unat h) img' = buffer"
proof -
  define n where "n = unat w * unat h"
  have n: "unat w * unat h = n" by (simp add: n_def)
  have p: "0 < n" using assms(1,2) by (simp add: n_def)
  have b: "3 * n < 2 ^ 31" using assms(3) by (simp add: n_def mult.commute)
  have lb: "3 * n \<le> length buffer" and eb: "length buffer = 3 * n"
    using assms(4) by (simp_all add: n_def)
  have li: "3 * n \<le> length img" using assms(5) by (simp add: n_def mult.commute)
  have "int (3 * n) < 2 ^ 31"
    using b by (simp only: of_nat_less_numeral_power_cancel_iff)
  then have mx: "3 * int n \<le> 2147483647" by simp
  have "\<exists>img'. rgb_loop 0 (3 * int n - 3) 0 n (2 * n) buffer img = Inr img' \<and>
          length img' = length img \<and>
          (\<forall>j. j < n \<longrightarrow> img' ! j = buffer ! (3 * j) \<and>
               img' ! (n + j) = buffer ! (3 * j + 1) \<and>
               img' ! (2 * n + j) = buffer ! (3 * j + 2))"
    using rgb_loop_planes [of 0 n buffer img, OF _ lb li mx] by simp
  then obtain img' where
    r: "rgb_loop 0 (3 * int n - 3) 0 n (2 * n) buffer img = Inr img'"
    and l: "length img' = length img"
    and v: "\<forall>j. j < n \<longrightarrow> img' ! j = buffer ! (3 * j) \<and>
               img' ! (n + j) = buffer ! (3 * j + 1) \<and>
               img' ! (2 * n + j) = buffer ! (3 * j + 2)"
    by blast
  have "rgb_to_planes w h buffer img = Inr img'"
    using r plane_offsets [OF n b] loop_bound [OF n p b] by (simp add: rgb_to_planes_def)
  moreover have "spec_planes_to_rgb n img' = buffer"
    using v eb by (rule spec_planes_to_rgb_eq)
  ultimately show ?thesis
    using l v unfolding n by blast
qed

lemma planes_2x2:
  "rgb_to_planes 2 2 [1, 2, 3, 4, 5, 6, 7, 8, 9, 10, 11, 12] (replicate 12 0) =
     Inr [1, 4, 7, 10, 2, 5, 8, 11, 3, 6, 9, 12]"
  by code_simp

theorem rgb_round_trip_witness:
  "rgb_to_planes 2 2 [1, 2, 3, 4, 5, 6, 7, 8, 9, 10, 11, 12] (replicate 12 0) =
     Inr [1, 4, 7, 10, 2, 5, 8, 11, 3, 6, 9, 12] \<and>
   spec_planes_to_rgb 4 [1, 4, 7, 10, 2, 5, 8, 11, 3, 6, 9, 12] =
     [1, 2, 3, 4, 5, 6, 7, 8, 9, 10, 11, 12]"
proof -
  have h: "0 < unat (2 :: 32 word)" "unat (2 :: 32 word) * unat (2 :: 32 word) * 3 < 2 ^ 31"
    "length [1, 2, 3, 4, 5, 6, 7, 8, 9, 10, 11, 12 :: byte] =
       unat (2 :: 32 word) * unat (2 :: 32 word) * 3"
    "unat (2 :: 32 word) * unat (2 :: 32 word) * 3 \<le> length (replicate 12 (0 :: byte))"
    by simp_all
  from rgb_round_trip [OF h(1) h(1) h(2) h(3) h(4)]
  obtain img' where
    r: "rgb_to_planes 2 2 [1, 2, 3, 4, 5, 6, 7, 8, 9, 10, 11, 12] (replicate 12 0) = Inr img'"
    and p: "spec_planes_to_rgb (unat (2 :: 32 word) * unat (2 :: 32 word)) img' =
              [1, 2, 3, 4, 5, 6, 7, 8, 9, 10, 11, 12]"
    by blast
  have "img' = [1, 4, 7, 10, 2, 5, 8, 11, 3, 6, 9, 12]"
    using r planes_2x2 by simp
  then show ?thesis
    using r p by simp
qed

text \<open>
  The property as the spec states it, for every positive width and height, fails where the loop
  bound does not fit its \<open>int\<close>: for 32768 x 32768 pixels the bound is negative, the loop
  does not run and the frame buffer keeps its old content.
\<close>

theorem rgb_round_trip_overflow_counterexample:
  "0 < unat (32768 :: 32 word) \<and>
   length (replicate 3221225472 (1 :: byte)) = unat (32768 :: 32 word) * unat (32768 :: 32 word) * 3 \<and>
   sint (32768 * 32768 * 3 - 3 :: 32 word) = -1073741827 \<and>
   rgb_to_planes 32768 32768 (replicate 3221225472 1) (replicate 3221225472 0) =
     Inr (replicate 3221225472 0) \<and>
   spec_planes_to_rgb (unat (32768 :: 32 word) * unat (32768 :: 32 word)) (replicate 3221225472 0) \<noteq>
     replicate 3221225472 1"
proof -
  have "hd (spec_planes_to_rgb 1073741824 (replicate 3221225472 (0 :: byte))) =
        replicate 3221225472 (0 :: byte) ! 0"
    by (rule spec_planes_to_rgb_hd) simp
  then have a: "hd (spec_planes_to_rgb 1073741824 (replicate 3221225472 (0 :: byte))) = 0"
    by simp
  have b: "hd (replicate 3221225472 (1 :: byte)) = 1"
    by simp
  have "spec_planes_to_rgb 1073741824 (replicate 3221225472 (0 :: byte)) \<noteq> replicate 3221225472 1"
  proof
    assume "spec_planes_to_rgb 1073741824 (replicate 3221225472 (0 :: byte)) = replicate 3221225472 1"
    then have "hd (spec_planes_to_rgb 1073741824 (replicate 3221225472 (0 :: byte))) =
               hd (replicate 3221225472 (1 :: byte))"
      by simp
    with a b show False by simp
  qed
  then have c: "spec_planes_to_rgb (unat (32768 :: 32 word) * unat (32768 :: 32 word))
              (replicate 3221225472 (0 :: byte)) \<noteq> replicate 3221225472 1"
    by simp
  have d: "0 < unat (32768 :: 32 word)"
    by simp
  have e: "length (replicate 3221225472 (1 :: byte)) =
           unat (32768 :: 32 word) * unat (32768 :: 32 word) * 3"
    by simp
  have f: "sint (32768 * 32768 * 3 - 3 :: 32 word) = -1073741827"
    by simp
  from c d e f overflow_loop [of "replicate 3221225472 1" "replicate 3221225472 0"]
  show ?thesis by blast
qed

subsection \<open>Frame delivery by the push callback and the download estimate\<close>

lemma millis_timersub: "millis (timersub a b) = millis a - millis b"
  by (simp add: millis_def timersub_def Let_def field_simps)

lemma download_estimate_value:
  "m_DownloadEstimation (download_estimate curtime s) =
     max (MIN_DOWNLOAD_ESTIMATION s) (millis curtime - millis (ExposureEnd s))"
proof -
  have "real_of_int (tv_sec (timersub curtime (ExposureEnd s)) * 1000) +
        real_of_int (tv_usec (timersub curtime (ExposureEnd s))) / 1000 =
        millis curtime - millis (ExposureEnd s)"
    using millis_timersub [of curtime "ExposureEnd s"] by (simp add: millis_def)
  then show ?thesis
    by (simp add: download_estimate_def Let_def max_def)
qed

lemma download_estimate_fields:
  "calls (download_estimate t s) = calls s"
  "PrimaryCCD (download_estimate t s) = PrimaryCCD s"
  "InExposure (download_estimate t s) = InExposure s"
  "m_CaptureTimeout (download_estimate t s) = m_CaptureTimeout s"
  "m_CaptureTimeoutCounter (download_estimate t s) = m_CaptureTimeoutCounter s"
  "m_MonoCamera (download_estimate t s) = m_MonoCamera s"
  "m_CurrentVideoFormat (download_estimate t s) = m_CurrentVideoFormat s"
  "MIN_DOWNLOAD_ESTIMATION (download_estimate t s) = MIN_DOWNLOAD_ESTIMATION s"
  "Streamer_isStreaming (download_estimate t s) = Streamer_isStreaming s"
  "Streamer_isRecording (download_estimate t s) = Streamer_isRecording s"
  "m_BitsPerPixel (download_estimate t s) = m_BitsPerPixel s"
  "m_MaxBitDepth (download_estimate t s) = m_MaxBitDepth s"
  "m_Channels (download_estimate t s) = m_Channels s"
  by (simp_all add: download_estimate_def Let_def)

lemma deliver_rgb_fields:
  "deliver_rgb buffer s = Inr s' \<Longrightarrow>
     calls s' = calls s \<and> m_DownloadEstimation s' = m_DownloadEstimation s"
  by (auto simp: deliver_rgb_def Let_def split: if_splits sum.splits)

lemma pushCallback_null:
  assumes "\<not> Streamer_isStreaming s" "\<not> Streamer_isRecording s" "InExposure s"
  shows "pushCallback None pInfo bSnap curtime s =
           Inr ((download_estimate curtime s)
                  \<lparr>InExposure := False, m_CaptureTimeoutCounter := 0, m_CaptureTimeout := None,
                   calls := calls s @ [CaptureTimeout_stop, CCD_setExposureLeft 0, CCD_setExposureFailed]\<rparr>)"
  using assms
  by (simp add: pushCallback_def Let_def emit_def download_estimate_def)

lemma pushCallback_data:
  assumes "\<not> Streamer_isStreaming s" "\<not> Streamer_isRecording s" "InExposure s"
      and "pushCallback (Some data) pInfo bSnap curtime s = Inr s'"
  shows "calls s' = calls s @ [CaptureTimeout_stop, CCD_setExposureLeft 0, ExposureComplete] \<and>
         m_DownloadEstimation s' = max (MIN_DOWNLOAD_ESTIMATION s) (millis curtime - millis (ExposureEnd s))"
  using assms
  by (auto simp: pushCallback_def Let_def emit_def download_estimate_fields
                 download_estimate_value
           split: if_splits sum.splits dest!: deliver_rgb_fields)

lemma pull_frame_fields:
  "pull_frame still rc pulled s = Inr s' \<Longrightarrow> m_DownloadEstimation s' = m_DownloadEstimation s"
  by (auto simp: pull_frame_def Let_def emit_def split: if_splits sum.splits
           dest!: deliver_rgb_fields)

lemma eventPullCallBack_image:
  assumes "eventPullCallBack EVENT_IMAGE curtime rc pulled s = Inr s'"
  shows "m_DownloadEstimation s' = max (MIN_DOWNLOAD_ESTIMATION s) (millis curtime - millis (ExposureEnd s))"
  using assms
  by (auto simp: eventPullCallBack_def Let_def download_estimate_value emit_def
           dest!: pull_frame_fields)

lemma eventPullCallBack_image_failed:
  "FAILED rc \<Longrightarrow> \<exists>s'. eventPullCallBack EVENT_IMAGE curtime rc pulled s = Inr s'"
  by (simp add: eventPullCallBack_def pull_frame_def Let_def)

lemma pushCallback_estimate:
  assumes "\<not> Streamer_isStreaming s" "\<not> Streamer_isRecording s" "InExposure s"
      and "pushCallback pData pInfo bSnap curtime s = Inr s'"
  shows "m_DownloadEstimation s' =
           max (MIN_DOWNLOAD_ESTIMATION s) (millis curtime - millis (ExposureEnd s))"
proof (cases pData)
  case None
  with assms show ?thesis
    by (auto simp: pushCallback_null download_estimate_value)
next
  case (Some data)
  with assms pushCallback_data [of s data pInfo bSnap curtime s'] show ?thesis
    by simp
qed

lemma UpdateCCDFrame_estimate:
  "UpdateCCDFrame x0 y0 w0 h0 rc s = Inr (True, s') \<Longrightarrow> m_DownloadEstimation s' = 10000"
  by (auto simp: UpdateCCDFrame_def Let_def emit_def split: if_splits)

lemma pushCallback_short:
  assumes "\<not> Streamer_isStreaming s" "\<not> Streamer_isRecording s" "InExposure s"
      and "length data <
             (if \<not> m_MonoCamera s \<and> m_CurrentVideoFormat s = TC_VIDEO_COLOR_RGB
              then unat (word_of_int (XRes (PrimaryCCD s) * YRes (PrimaryCCD s) * 3) :: 32 word)
              else length (FrameBuffer (PrimaryCCD s)))"
  shows "pushCallback (Some data) pInfo bSnap curtime s = Inl OutOfBounds"
  using assms
  by (auto simp add: pushCallback_def Let_def emit_def download_estimate_fields split: if_splits)

lemma pushCallback_copy:
  assumes "\<not> Streamer_isStreaming s" "\<not> Streamer_isRecording s" "InExposure s"
      and "\<not> (\<not> m_MonoCamera s \<and> m_CurrentVideoFormat s = TC_VIDEO_COLOR_RGB)"
      and "length (FrameBuffer (PrimaryCCD s)) \<le> length data"
  shows "pushCallback (Some data) pInfo bSnap curtime s =
           Inr ((download_estimate curtime s)
                  \<lparr>PrimaryCCD := (PrimaryCCD s)
                     \<lparr>FrameBuffer := take (length (FrameBuffer (PrimaryCCD s))) data\<rparr>,
                   InExposure := False, m_CaptureTimeoutCounter := 0, m_CaptureTimeout := None,
                   calls := calls s @ [CaptureTimeout_stop, CCD_setExposureLeft 0, ExposureComplete]\<rparr>)"
  using assms
  by (auto simp add: pushCallback_def Let_def emit_def download_estimate_def)

lemma pushCallback_planes:
  assumes "\<not> Streamer_isStreaming s" "\<not> Streamer_isRecording s" "InExposure s"
      and "\<not> m_MonoCamera s \<and> m_CurrentVideoFormat s = TC_VIDEO_COLOR_RGB"
      and "unat (word_of_int (XRes (PrimaryCCD s) * YRes (PrimaryCCD s) * 3) :: 32 word) \<le> length data"
      and "BinX (PrimaryCCD s) \<noteq> 0" "BinY (PrimaryCCD s) \<noteq> 0"
      and "rgb_to_planes
             (word_of_int (SubW (PrimaryCCD s) sdiv BinX (PrimaryCCD s) * (BPP (PrimaryCCD s) sdiv 8)))
             (word_of_int (SubH (PrimaryCCD s) sdiv BinY (PrimaryCCD s) * (BPP (PrimaryCCD s) sdiv 8)))
             (take (unat (word_of_int (XRes (PrimaryCCD s) * YRes (PrimaryCCD s) * 3) :: 32 word)) data)
             (FrameBuffer (PrimaryCCD s)) = Inr img"
  shows "pushCallback (Some data) pInfo bSnap curtime s =
           Inr ((download_estimate curtime s)
                  \<lparr>PrimaryCCD := (PrimaryCCD s)\<lparr>FrameBuffer := img\<rparr>,
                   InExposure := False, m_CaptureTimeoutCounter := 0, m_CaptureTimeout := None,
                   calls := calls s @ [CaptureTimeout_stop, CCD_setExposureLeft 0, ExposureComplete]\<rparr>)"
  using assms
  by (simp add: pushCallback_def deliver_rgb_def Let_def emit_def download_estimate_def)

text \<open>
  C7, as the code has it. When the push callback gets a null pointer while an exposure is
  in flight and the camera is not streaming or recording, it stops the timeout, reports the
  exposure as failed at once, issues no snap or trigger, leaves the chip and its frame
  buffer as they were and does not signal completion. A null pointer is the only input
  that it treats so. The callback gets no length and does not look at the frame metadata:
  from a pointer that is not null it reads as many bytes as the frame buffer holds, or
  \<open>XRes * YRes * 3\<close> bytes in RGB mode. Where fewer bytes can be read, the copy reads
  outside the data. Otherwise, outside RGB mode, the bytes read become the frame buffer and
  completion is signalled; in RGB mode the frame buffer becomes what the de-interleaving
  loop makes of the bytes read, and completion is signalled, unless the loop itself
  faults. Whenever the callback returns for a pointer that is not null, it has signalled
  completion and reported no failure.
\<close>

theorem pushCallback_null_fails:
  "\<not> Streamer_isStreaming s \<and> \<not> Streamer_isRecording s \<and> InExposure s \<longrightarrow>
     (\<exists>s'. pushCallback None pInfo bSnap curtime s = Inr s' \<and>
           calls s' = calls s @ [CaptureTimeout_stop, CCD_setExposureLeft 0, CCD_setExposureFailed] \<and>
           PrimaryCCD s' = PrimaryCCD s \<and>
           InExposure s' = False \<and> m_CaptureTimeout s' = None \<and> m_CaptureTimeoutCounter s' = 0) \<and>
     (\<forall>s'. pushCallback (Some data) pInfo bSnap curtime s = Inr s' \<longrightarrow>
           calls s' = calls s @ [CaptureTimeout_stop, CCD_setExposureLeft 0, ExposureComplete]) \<and>
     (length data <
        (if \<not> m_MonoCamera s \<and> m_CurrentVideoFormat s = TC_VIDEO_COLOR_RGB
         then unat (word_of_int (XRes (PrimaryCCD s) * YRes (PrimaryCCD s) * 3) :: 32 word)
         else length (FrameBuffer (PrimaryCCD s))) \<longrightarrow>
        pushCallback (Some data) pInfo bSnap curtime s = Inl OutOfBounds) \<and>
     (\<not> (\<not> m_MonoCamera s \<and> m_CurrentVideoFormat s = TC_VIDEO_COLOR_RGB) \<and>
      length (FrameBuffer (PrimaryCCD s)) \<le> length data \<longrightarrow>
        pushCallback (Some data) pInfo bSnap curtime s =
          Inr ((download_estimate curtime s)
                 \<lparr>PrimaryCCD := (PrimaryCCD s)
                    \<lparr>FrameBuffer := take (length (FrameBuffer (PrimaryCCD s))) data\<rparr>,
                  InExposure := False, m_CaptureTimeoutCounter := 0, m_CaptureTimeout := None,
                  calls := calls s @ [CaptureTimeout_stop, CCD_setExposureLeft 0, ExposureComplete]\<rparr>)) \<and>
     (\<not> m_MonoCamera s \<and> m_CurrentVideoFormat s = TC_VIDEO_COLOR_RGB \<and>
      unat (word_of_int (XRes (PrimaryCCD s) * YRes (PrimaryCCD s) * 3) :: 32 word) \<le> length data \<and>
      BinX (PrimaryCCD s) \<noteq> 0 \<and> BinY (PrimaryCCD s) \<noteq> 0 \<and>
      rgb_to_planes
        (word_of_int (SubW (PrimaryCCD s) sdiv BinX (PrimaryCCD s) * (BPP (PrimaryCCD s) sdiv 8)))
        (word_of_int (SubH (PrimaryCCD s) sdiv BinY (PrimaryCCD s) * (BPP (PrimaryCCD s) sdiv 8)))
        (take (unat (word_of_int (XRes (PrimaryCCD s) * YRes (PrimaryCCD s) * 3) :: 32 word)) data)
        (FrameBuffer (PrimaryCCD s)) = Inr img \<longrightarrow>
        pushCallback (Some data) pInfo bSnap curtime s =
          Inr ((download_estimate curtime s)
                 \<lparr>PrimaryCCD := (PrimaryCCD s)\<lparr>FrameBuffer := img\<rparr>,
                  InExposure := False, m_CaptureTimeoutCounter := 0, m_CaptureTimeout := None,
                  calls := calls s @ [CaptureTimeout_stop, CCD_setExposureLeft 0, ExposureComplete]\<rparr>))"
proof (intro impI)
  assume h: "\<not> Streamer_isStreaming s \<and> \<not> Streamer_isRecording s \<and> InExposure s"
  then have h1: "\<not> Streamer_isStreaming s" and h2: "\<not> Streamer_isRecording s" and h3: "InExposure s"
    by simp_all
  have a: "\<exists>s'. pushCallback None pInfo bSnap curtime s = Inr s' \<and>
           calls s' = calls s @ [CaptureTimeout_stop, CCD_setExposureLeft 0, CCD_setExposureFailed] \<and>
           PrimaryCCD s' = PrimaryCCD s \<and>
           InExposure s' = False \<and> m_CaptureTimeout s' = None \<and> m_CaptureTimeoutCounter s' = 0"
    by (simp add: pushCallback_null [OF h1 h2 h3] download_estimate_fields)
  have b: "\<forall>s'. pushCallback (Some data) pInfo bSnap curtime s = Inr s' \<longrightarrow>
           calls s' = calls s @ [CaptureTimeout_stop, CCD_setExposureLeft 0, ExposureComplete]"
    using pushCallback_data [OF h1 h2 h3] by blast
  from a b pushCallback_short [OF h1 h2 h3, of data pInfo bSnap curtime]
       pushCallback_copy [OF h1 h2 h3, of data pInfo bSnap curtime]
       pushCallback_planes [OF h1 h2 h3, of data img pInfo bSnap curtime]
  show "(\<exists>s'. pushCallback None pInfo bSnap curtime s = Inr s' \<and>
           calls s' = calls s @ [CaptureTimeout_stop, CCD_setExposureLeft 0, CCD_setExposureFailed] \<and>
           PrimaryCCD s' = PrimaryCCD s \<and>
           InExposure s' = False \<and> m_CaptureTimeout s' = None \<and> m_CaptureTimeoutCounter s' = 0) \<and>
     (\<forall>s'. pushCallback (Some data) pInfo bSnap curtime s = Inr s' \<longrightarrow>
           calls s' = calls s @ [CaptureTimeout_stop, CCD_setExposureLeft 0, ExposureComplete]) \<and>
     (length data <
        (if \<not> m_MonoCamera s \<and> m_CurrentVideoFormat s = TC_VIDEO_COLOR_RGB
         then unat (word_of_int (XRes (PrimaryCCD s) * YRes (PrimaryCCD s) * 3) :: 32 word)
         else length (FrameBuffer (PrimaryCCD s))) \<longrightarrow>
        pushCallback (Some data) pInfo bSnap curtime s = Inl OutOfBounds) \<and>
     (\<not> (\<not> m_MonoCamera s \<and> m_CurrentVideoFormat s = TC_VIDEO_COLOR_RGB) \<and>
      length (FrameBuffer (PrimaryCCD s)) \<le> length data \<longrightarrow>
        pushCallback (Some data) pInfo bSnap curtime s =
          Inr ((download_estimate curtime s)
                 \<lparr>PrimaryCCD := (PrimaryCCD s)
                    \<lparr>FrameBuffer := take (length (FrameBuffer (PrimaryCCD s))) data\<rparr>,
                  InExposure := False, m_CaptureTimeoutCounter := 0, m_CaptureTimeout := None,
                  calls := calls s @ [CaptureTimeout_stop, CCD_setExposureLeft 0, ExposureComplete]\<rparr>)) \<and>
     (\<not> m_MonoCamera s \<and> m_CurrentVideoFormat s = TC_VIDEO_COLOR_RGB \<and>
      unat (word_of_int (XRes (PrimaryCCD s) * YRes (PrimaryCCD s) * 3) :: 32 word) \<le> length data \<and>
      BinX (PrimaryCCD s) \<noteq> 0 \<and> BinY (PrimaryCCD s) \<noteq> 0 \<and>
      rgb_to_planes
        (word_of_int (SubW (PrimaryCCD s) sdiv BinX (PrimaryCCD s) * (BPP (PrimaryCCD s) sdiv 8)))
        (word_of_int (SubH (PrimaryCCD s) sdiv BinY (PrimaryCCD s) * (BPP (PrimaryCCD s) sdiv 8)))
        (take (unat (word_of_int (XRes (PrimaryCCD s) * YRes (PrimaryCCD s) * 3) :: 32 word)) data)
        (FrameBuffer (PrimaryCCD s)) = Inr img \<longrightarrow>
        pushCallback (Some data) pInfo bSnap curtime s =
          Inr ((download_estimate curtime s)
                 \<lparr>PrimaryCCD := (PrimaryCCD s)\<lparr>FrameBuffer := img\<rparr>,
                  InExposure := False, m_CaptureTimeoutCounter := 0, m_CaptureTimeout := None,
                  calls := calls s @ [CaptureTimeout_stop, CCD_setExposureLeft 0, ExposureComplete]\<rparr>))"
    by blast
qed

text \<open>
  C9, as the code has it. Every push callback that is handled as an exposure, and every
  \<open>EVENT_IMAGE\<close> event, sets the download estimate to the time from the exposure end to
  the callback in milliseconds, or to the minimum where that time is smaller. They do so
  before the frame is copied or pulled, whether or not the delivery then succeeds;
  afterwards the estimate is at least the minimum. A successful \<open>UpdateCCDFrame\<close> sets the
  estimate to 10000.
\<close>

theorem download_estimate_updated:
  "(\<not> Streamer_isStreaming s \<and> \<not> Streamer_isRecording s \<and> InExposure s \<and>
    pushCallback pData pInfo bSnap curtime s = Inr s1 \<longrightarrow>
      m_DownloadEstimation s1 =
        max (MIN_DOWNLOAD_ESTIMATION s) (millis curtime - millis (ExposureEnd s)) \<and>
      MIN_DOWNLOAD_ESTIMATION s \<le> m_DownloadEstimation s1) \<and>
   (eventPullCallBack EVENT_IMAGE curtime rc pulled s = Inr s2 \<longrightarrow>
      m_DownloadEstimation s2 =
        max (MIN_DOWNLOAD_ESTIMATION s) (millis curtime - millis (ExposureEnd s)) \<and>
      MIN_DOWNLOAD_ESTIMATION s \<le> m_DownloadEstimation s2) \<and>
   (UpdateCCDFrame x0 y0 w0 h0 rc' s = Inr (True, s3) \<longrightarrow> m_DownloadEstimation s3 = 10000)"
  using pushCallback_estimate [of s pData pInfo bSnap curtime s1]
        eventPullCallBack_image [of curtime rc pulled s s2]
        UpdateCCDFrame_estimate [of x0 y0 w0 h0 rc' s s3]
  by auto

lemma push_inflight0:
  "pushCallback (Some (replicate 16 7))
      \<lparr>info_width = 0, info_height = 0, info_flag = 0, info_timestamp = 0\<rparr> 0
      \<lparr>tv_sec = 102, tv_usec = 500000\<rparr> inflight0 =
   Inr (inflight0\<lparr>PrimaryCCD := chip0\<lparr>ExposureDuration := 1, FrameBuffer := replicate 16 7\<rparr>,
                  InExposure := False, m_CaptureTimeout := None, m_DownloadEstimation := 1500,
                  calls := calls inflight0 @ [CaptureTimeout_stop, CCD_setExposureLeft 0, ExposureComplete]\<rparr>)"
  by (simp add: inflight0_eval pushCallback_def download_estimate_def timersub_def emit_def Let_def
                cam0_def chip0_def)

lemma push_null_inflight0:
  "pushCallback None
      \<lparr>info_width = 4, info_height = 4, info_flag = 0, info_timestamp = 0\<rparr> 0
      \<lparr>tv_sec = 101, tv_usec = 50000\<rparr> inflight0 =
   Inr (inflight0\<lparr>InExposure := False, m_CaptureTimeout := None, m_DownloadEstimation := 1000,
                  calls := calls inflight0 @ [CaptureTimeout_stop, CCD_setExposureLeft 0, CCD_setExposureFailed]\<rparr>)"
  by (simp add: inflight0_eval pushCallback_def download_estimate_def timersub_def emit_def Let_def
                cam0_def chip0_def)

lemma push_short_inflight0:
  "pushCallback (Some [])
      \<lparr>info_width = 0, info_height = 0, info_flag = 0, info_timestamp = 0\<rparr> 0
      \<lparr>tv_sec = 102, tv_usec = 500000\<rparr> inflight0 = Inl OutOfBounds"
  by (simp add: inflight0_eval pushCallback_def download_estimate_def timersub_def emit_def Let_def
                cam0_def chip0_def)

lemma rgb0_eval:
  "rgb0 =
     cam0\<lparr>PrimaryCCD := chip_rgb, m_MonoCamera := False, m_Channels := 3,
          InExposure := True, ExposureRequest := 1,
          ExposureEnd := \<lparr>tv_sec = 101, tv_usec = 0\<rparr>,
          m_CaptureTimeout := Some 7000,
          calls := [SDK_put_ExpoTime 1000000, SDK_Trigger 1, CaptureTimeout_start 7000]\<rparr>"
  by (simp add: rgb0_def inflight0_eval)

lemma estimate_values:
  "download_estimate \<lparr>tv_sec = 102, tv_usec = 500000\<rparr> inflight0 =
     inflight0\<lparr>m_DownloadEstimation := 1500\<rparr>"
  "download_estimate \<lparr>tv_sec = 101, tv_usec = 50000\<rparr> inflight0 =
     inflight0\<lparr>m_DownloadEstimation := 1000\<rparr>"
  "download_estimate \<lparr>tv_sec = 102, tv_usec = 500000\<rparr> rgb0 =
     rgb0\<lparr>m_DownloadEstimation := 1500\<rparr>"
  by (simp_all add: rgb0_eval inflight0_eval download_estimate_def timersub_def Let_def cam0_def)

theorem pushCallback_null_fails_witness:
  "pushCallback None
      \<lparr>info_width = 4, info_height = 4, info_flag = 0, info_timestamp = 0\<rparr> 0
      \<lparr>tv_sec = 101, tv_usec = 50000\<rparr> inflight0 =
     Inr (inflight0\<lparr>InExposure := False, m_CaptureTimeout := None, m_DownloadEstimation := 1000,
                    calls := [SDK_put_ExpoTime 1000000, SDK_Trigger 1, CaptureTimeout_start 7000,
                              CaptureTimeout_stop, CCD_setExposureLeft 0, CCD_setExposureFailed]\<rparr>) \<and>
   FrameBuffer (PrimaryCCD inflight0) = replicate 16 0 \<and>
   pushCallback (Some (replicate 16 7))
      \<lparr>info_width = 0, info_height = 0, info_flag = 0, info_timestamp = 0\<rparr> 0
      \<lparr>tv_sec = 102, tv_usec = 500000\<rparr> inflight0 =
     Inr (inflight0\<lparr>PrimaryCCD := chip0\<lparr>ExposureDuration := 1, FrameBuffer := replicate 16 7\<rparr>,
                    InExposure := False, m_CaptureTimeout := None, m_DownloadEstimation := 1500,
                    calls := [SDK_put_ExpoTime 1000000, SDK_Trigger 1, CaptureTimeout_start 7000,
                              CaptureTimeout_stop, CCD_setExposureLeft 0, ExposureComplete]\<rparr>) \<and>
   pushCallback (Some (replicate 15 7))
      \<lparr>info_width = 4, info_height = 4, info_flag = 0, info_timestamp = 0\<rparr> 0
      \<lparr>tv_sec = 102, tv_usec = 500000\<rparr> inflight0 = Inl OutOfBounds \<and>
   pushCallback (Some [1, 2, 3, 4, 5, 6, 7, 8, 9, 10, 11, 12, 13])
      \<lparr>info_width = 2, info_height = 2, info_flag = 0, info_timestamp = 0\<rparr> 0
      \<lparr>tv_sec = 102, tv_usec = 500000\<rparr> rgb0 =
     Inr (rgb0\<lparr>PrimaryCCD := chip_rgb\<lparr>FrameBuffer := [1, 4, 7, 10, 2, 5, 8, 11, 3, 6, 9, 12]\<rparr>,
               InExposure := False, m_CaptureTimeout := None, m_DownloadEstimation := 1500,
               calls := [SDK_put_ExpoTime 1000000, SDK_Trigger 1, CaptureTimeout_start 7000,
                         CaptureTimeout_stop, CCD_setExposureLeft 0, ExposureComplete]\<rparr>) \<and>
   pushCallback (Some [1, 2, 3, 4, 5, 6, 7, 8, 9, 10, 11])
      \<lparr>info_width = 2, info_height = 2, info_flag = 0, info_timestamp = 0\<rparr> 0
      \<lparr>tv_sec = 102, tv_usec = 500000\<rparr> rgb0 = Inl OutOfBounds"
proof -
  have c: "\<not> Streamer_isStreaming inflight0 \<and> \<not> Streamer_isRecording inflight0 \<and>
           InExposure inflight0"
    by (simp add: inflight0_eval cam0_def)
  have mono: "m_MonoCamera inflight0"
    by (simp add: inflight0_eval cam0_def)
  have fb: "FrameBuffer (PrimaryCCD inflight0) = replicate 16 0"
    by (simp add: inflight0_eval chip0_def)
  have g: "\<not> Streamer_isStreaming rgb0 \<and> \<not> Streamer_isRecording rgb0 \<and> InExposure rgb0"
    by (simp add: rgb0_eval cam0_def)
  have rgb: "\<not> m_MonoCamera rgb0 \<and> m_CurrentVideoFormat rgb0 = TC_VIDEO_COLOR_RGB"
    by (simp add: rgb0_eval cam0_def)
  have pc: "PrimaryCCD rgb0 = chip_rgb"
    by (simp add: rgb0_eval)
  have gc: "XRes chip_rgb = 2 \<and> YRes chip_rgb = 2 \<and> SubW chip_rgb = 2 \<and> SubH chip_rgb = 2 \<and>
            BinX chip_rgb = 1 \<and> BinY chip_rgb = 1 \<and> BPP chip_rgb = 8 \<and>
            FrameBuffer chip_rgb = replicate 12 0"
    by (simp add: chip_rgb_def)
  have pl: "rgb_to_planes 2 2 (take 12 [1, 2, 3, 4, 5, 6, 7, 8, 9, 10, 11, 12, 13]) (replicate 12 0) =
              Inr [1, 4, 7, 10, 2, 5, 8, 11, 3, 6, 9, 12]"
    using planes_2x2 by simp
  note n = pushCallback_null_fails
         [of inflight0 "\<lparr>info_width = 4, info_height = 4, info_flag = 0, info_timestamp = 0\<rparr>" 0
             "\<lparr>tv_sec = 101, tv_usec = 50000\<rparr>" "[]" "[]"]
  note m = pushCallback_null_fails
         [of inflight0 "\<lparr>info_width = 0, info_height = 0, info_flag = 0, info_timestamp = 0\<rparr>" 0
             "\<lparr>tv_sec = 102, tv_usec = 500000\<rparr>" "replicate 16 7" "[]"]
  note sh = pushCallback_null_fails
         [of inflight0 "\<lparr>info_width = 4, info_height = 4, info_flag = 0, info_timestamp = 0\<rparr>" 0
             "\<lparr>tv_sec = 102, tv_usec = 500000\<rparr>" "replicate 15 7" "[]"]
  note p = pushCallback_null_fails
         [of rgb0 "\<lparr>info_width = 2, info_height = 2, info_flag = 0, info_timestamp = 0\<rparr>" 0
             "\<lparr>tv_sec = 102, tv_usec = 500000\<rparr>" "[1, 2, 3, 4, 5, 6, 7, 8, 9, 10, 11, 12, 13]"
             "[1, 4, 7, 10, 2, 5, 8, 11, 3, 6, 9, 12]"]
  note ps = pushCallback_null_fails
         [of rgb0 "\<lparr>info_width = 2, info_height = 2, info_flag = 0, info_timestamp = 0\<rparr>" 0
             "\<lparr>tv_sec = 102, tv_usec = 500000\<rparr>" "[1, 2, 3, 4, 5, 6, 7, 8, 9, 10, 11]" "[]"]
  have 1: "pushCallback None
      \<lparr>info_width = 4, info_height = 4, info_flag = 0, info_timestamp = 0\<rparr> 0
      \<lparr>tv_sec = 101, tv_usec = 50000\<rparr> inflight0 =
     Inr (inflight0\<lparr>InExposure := False, m_CaptureTimeout := None, m_DownloadEstimation := 1000,
                    calls := [SDK_put_ExpoTime 1000000, SDK_Trigger 1, CaptureTimeout_start 7000,
                              CaptureTimeout_stop, CCD_setExposureLeft 0, CCD_setExposureFailed]\<rparr>)"
    using push_null_inflight0 by (simp add: inflight0_eval)
  have m2: "pushCallback (Some (replicate 16 7))
      \<lparr>info_width = 0, info_height = 0, info_flag = 0, info_timestamp = 0\<rparr> 0
      \<lparr>tv_sec = 102, tv_usec = 500000\<rparr> inflight0 =
     Inr ((download_estimate \<lparr>tv_sec = 102, tv_usec = 500000\<rparr> inflight0)
            \<lparr>PrimaryCCD := (PrimaryCCD inflight0)\<lparr>FrameBuffer := replicate 16 7\<rparr>,
             InExposure := False, m_CaptureTimeoutCounter := 0, m_CaptureTimeout := None,
             calls := calls inflight0 @ [CaptureTimeout_stop, CCD_setExposureLeft 0, ExposureComplete]\<rparr>)"
    using m [THEN mp, OF c, THEN conjunct2, THEN conjunct2, THEN conjunct2, THEN conjunct1]
          mono fb
    by simp
  have 2: "pushCallback (Some (replicate 16 7))
      \<lparr>info_width = 0, info_height = 0, info_flag = 0, info_timestamp = 0\<rparr> 0
      \<lparr>tv_sec = 102, tv_usec = 500000\<rparr> inflight0 =
     Inr (inflight0\<lparr>PrimaryCCD := chip0\<lparr>ExposureDuration := 1, FrameBuffer := replicate 16 7\<rparr>,
                    InExposure := False, m_CaptureTimeout := None, m_DownloadEstimation := 1500,
                    calls := [SDK_put_ExpoTime 1000000, SDK_Trigger 1, CaptureTimeout_start 7000,
                              CaptureTimeout_stop, CCD_setExposureLeft 0, ExposureComplete]\<rparr>)"
    unfolding m2 estimate_values by (simp add: inflight0_eval cam0_def)
  have 3: "pushCallback (Some (replicate 15 7))
      \<lparr>info_width = 4, info_height = 4, info_flag = 0, info_timestamp = 0\<rparr> 0
      \<lparr>tv_sec = 102, tv_usec = 500000\<rparr> inflight0 = Inl OutOfBounds"
    using sh [THEN mp, OF c, THEN conjunct2, THEN conjunct2, THEN conjunct1] mono fb
    by simp
  have p4: "pushCallback (Some [1, 2, 3, 4, 5, 6, 7, 8, 9, 10, 11, 12, 13])
      \<lparr>info_width = 2, info_height = 2, info_flag = 0, info_timestamp = 0\<rparr> 0
      \<lparr>tv_sec = 102, tv_usec = 500000\<rparr> rgb0 =
     Inr ((download_estimate \<lparr>tv_sec = 102, tv_usec = 500000\<rparr> rgb0)
            \<lparr>PrimaryCCD := chip_rgb\<lparr>FrameBuffer := [1, 4, 7, 10, 2, 5, 8, 11, 3, 6, 9, 12]\<rparr>,
             InExposure := False, m_CaptureTimeoutCounter := 0, m_CaptureTimeout := None,
             calls := calls rgb0 @ [CaptureTimeout_stop, CCD_setExposureLeft 0, ExposureComplete]\<rparr>)"
    using p [THEN mp, OF g, THEN conjunct2, THEN conjunct2, THEN conjunct2, THEN conjunct2]
          rgb gc pl
    by (simp add: pc signed_divide_int_def)
  have 4: "pushCallback (Some [1, 2, 3, 4, 5, 6, 7, 8, 9, 10, 11, 12, 13])
      \<lparr>info_width = 2, info_height = 2, info_flag = 0, info_timestamp = 0\<rparr> 0
      \<lparr>tv_sec = 102, tv_usec = 500000\<rparr> rgb0 =
     Inr (rgb0\<lparr>PrimaryCCD := chip_rgb\<lparr>FrameBuffer := [1, 4, 7, 10, 2, 5, 8, 11, 3, 6, 9, 12]\<rparr>,
               InExposure := False, m_CaptureTimeout := None, m_DownloadEstimation := 1500,
               calls := [SDK_put_ExpoTime 1000000, SDK_Trigger 1, CaptureTimeout_start 7000,
                         CaptureTimeout_stop, CCD_setExposureLeft 0, ExposureComplete]\<rparr>)"
    unfolding p4 estimate_values by (simp add: rgb0_eval cam0_def)
  have 5: "pushCallback (Some [1, 2, 3, 4, 5, 6, 7, 8, 9, 10, 11])
      \<lparr>info_width = 2, info_height = 2, info_flag = 0, info_timestamp = 0\<rparr> 0
      \<lparr>tv_sec = 102, tv_usec = 500000\<rparr> rgb0 = Inl OutOfBounds"
    using ps [THEN mp, OF g, THEN conjunct2, THEN conjunct2, THEN conjunct1] rgb gc
    by (simp add: pc)
  from 1 2 3 4 5 fb show ?thesis by blast
qed

text \<open>
  The property as the spec states it fails for zero-size and short input: a frame whose metadata
  says 0 x 0 is copied for the size of the frame buffer and completes the exposure, and a
  pointer to no data at all makes the copy read outside the data instead of failing the
  exposure.
\<close>

theorem pushCallback_zero_size_counterexample:
  "pushCallback (Some (replicate 16 7))
      \<lparr>info_width = 0, info_height = 0, info_flag = 0, info_timestamp = 0\<rparr> 0
      \<lparr>tv_sec = 102, tv_usec = 500000\<rparr> inflight0 =
   Inr (inflight0\<lparr>PrimaryCCD := chip0\<lparr>ExposureDuration := 1, FrameBuffer := replicate 16 7\<rparr>,
                  InExposure := False, m_CaptureTimeout := None, m_DownloadEstimation := 1500,
                  calls := calls inflight0 @ [CaptureTimeout_stop, CCD_setExposureLeft 0, ExposureComplete]\<rparr>) \<and>
   pushCallback (Some [])
      \<lparr>info_width = 0, info_height = 0, info_flag = 0, info_timestamp = 0\<rparr> 0
      \<lparr>tv_sec = 102, tv_usec = 500000\<rparr> inflight0 = Inl OutOfBounds"
  using push_inflight0 push_short_inflight0 by simp

theorem download_estimate_updated_witness:
  "MIN_DOWNLOAD_ESTIMATION inflight0 = 1000 \<and>
   millis \<lparr>tv_sec = 102, tv_usec = 500000\<rparr> - millis (ExposureEnd inflight0) = 1500 \<and>
   m_DownloadEstimation (projr (pushCallback (Some (replicate 16 7))
      \<lparr>info_width = 0, info_height = 0, info_flag = 0, info_timestamp = 0\<rparr> 0
      \<lparr>tv_sec = 102, tv_usec = 500000\<rparr> inflight0)) = 1500 \<and>
   millis \<lparr>tv_sec = 101, tv_usec = 50000\<rparr> - millis (ExposureEnd inflight0) = 50 \<and>
   m_DownloadEstimation (projr (pushCallback None
      \<lparr>info_width = 4, info_height = 4, info_flag = 0, info_timestamp = 0\<rparr> 0
      \<lparr>tv_sec = 101, tv_usec = 50000\<rparr> inflight0)) = 1000"
proof -
  have c: "\<not> Streamer_isStreaming inflight0 \<and> \<not> Streamer_isRecording inflight0 \<and>
           InExposure inflight0 \<and> MIN_DOWNLOAD_ESTIMATION inflight0 = 1000 \<and>
           ExposureEnd inflight0 = \<lparr>tv_sec = 101, tv_usec = 0\<rparr>"
    by (simp add: inflight0_eval cam0_def)
  have m: "millis \<lparr>tv_sec = 102, tv_usec = 500000\<rparr> - millis \<lparr>tv_sec = 101, tv_usec = 0\<rparr> = 1500 \<and>
           millis \<lparr>tv_sec = 101, tv_usec = 50000\<rparr> - millis \<lparr>tv_sec = 101, tv_usec = 0\<rparr> = 50"
    by (simp add: millis_def)
  note a = download_estimate_updated
             [of inflight0 "Some (replicate 16 7)"
                 "\<lparr>info_width = 0, info_height = 0, info_flag = 0, info_timestamp = 0\<rparr>" 0
                 "\<lparr>tv_sec = 102, tv_usec = 500000\<rparr>" _ 0 "[]" inflight0 0 0 0 0 0 inflight0,
              THEN conjunct1]
  note b = download_estimate_updated
             [of inflight0 None
                 "\<lparr>info_width = 4, info_height = 4, info_flag = 0, info_timestamp = 0\<rparr>" 0
                 "\<lparr>tv_sec = 101, tv_usec = 50000\<rparr>" _ 0 "[]" inflight0 0 0 0 0 0 inflight0,
              THEN conjunct1]
  have 1: "m_DownloadEstimation (projr (pushCallback (Some (replicate 16 7))
      \<lparr>info_width = 0, info_height = 0, info_flag = 0, info_timestamp = 0\<rparr> 0
      \<lparr>tv_sec = 102, tv_usec = 500000\<rparr> inflight0)) = 1500"
    using a [of "projr (pushCallback (Some (replicate 16 7))
      \<lparr>info_width = 0, info_height = 0, info_flag = 0, info_timestamp = 0\<rparr> 0
      \<lparr>tv_sec = 102, tv_usec = 500000\<rparr> inflight0)"] c m push_inflight0
    by simp
  have 2: "m_DownloadEstimation (projr (pushCallback None
      \<lparr>info_width = 4, info_height = 4, info_flag = 0, info_timestamp = 0\<rparr> 0
      \<lparr>tv_sec = 101, tv_usec = 50000\<rparr> inflight0)) = 1000"
    using b [of "projr (pushCallback None
      \<lparr>info_width = 4, info_height = 4, info_flag = 0, info_timestamp = 0\<rparr> 0
      \<lparr>tv_sec = 101, tv_usec = 50000\<rparr> inflight0)"] c m push_null_inflight0
    by simp
  show ?thesis
    unfolding 1 2 using c m by simp
qed

lemma still_inflight0:
  "eventPullCallBack EVENT_STILLIMAGE \<lparr>tv_sec = 102, tv_usec = 500000\<rparr> 0 (replicate 16 7) inflight0 =
   Inr (inflight0\<lparr>PrimaryCCD := chip0\<lparr>ExposureDuration := 1, FrameBuffer := replicate 16 7\<rparr>,
                  InExposure := False, m_CaptureTimeout := None,
                  calls := calls inflight0 @ [CaptureTimeout_stop, CCD_setExposureLeft 0,
                             SDK_PullStillImageV2 8, ExposureComplete]\<rparr>)"
  by (simp add: inflight0_eval eventPullCallBack_def pull_frame_def emit_def Let_def
                cam0_def chip0_def FAILED_def)

text \<open>
  The property as the spec states it fails: the estimate changes from 5000 to 1000 in a push
  callback whose delivery fails, and a still image that is delivered leaves it at 5000.
\<close>

theorem download_estimate_failed_delivery_counterexample:
  "m_DownloadEstimation inflight0 = 5000 \<and>
   pushCallback None
      \<lparr>info_width = 4, info_height = 4, info_flag = 0, info_timestamp = 0\<rparr> 0
      \<lparr>tv_sec = 101, tv_usec = 50000\<rparr> inflight0 =
   Inr (inflight0\<lparr>InExposure := False, m_CaptureTimeout := None, m_DownloadEstimation := 1000,
                  calls := calls inflight0 @ [CaptureTimeout_stop, CCD_setExposureLeft 0, CCD_setExposureFailed]\<rparr>) \<and>
   eventPullCallBack EVENT_STILLIMAGE \<lparr>tv_sec = 102, tv_usec = 500000\<rparr> 0 (replicate 16 7) inflight0 =
   Inr (inflight0\<lparr>PrimaryCCD := chip0\<lparr>ExposureDuration := 1, FrameBuffer := replicate 16 7\<rparr>,
                  InExposure := False, m_CaptureTimeout := None,
                  calls := calls inflight0 @ [CaptureTimeout_stop, CCD_setExposureLeft 0,
                             SDK_PullStillImageV2 8, ExposureComplete]\<rparr>) \<and>
   m_DownloadEstimation (projr (eventPullCallBack EVENT_STILLIMAGE
      \<lparr>tv_sec = 102, tv_usec = 500000\<rparr> 0 (replicate 16 7) inflight0)) = 5000"
  using push_null_inflight0 still_inflight0 by (simp add: inflight0_eval cam0_def)

subsection \<open>Guide pulses\<close>

lemma stopTimerNS_pending:
  "NStimerID g \<noteq> -1 \<Longrightarrow>
   stopTimerNS g =
     g\<lparr>guide_calls := guide_calls g @ [GuideComplete AXIS_DE, IERmTimer (NStimerID g)],
       NStimerID := -1\<rparr>"
  by (simp add: stopTimerNS_def)

lemma stopTimerWE_pending:
  "WEtimerID g \<noteq> -1 \<Longrightarrow>
   stopTimerWE g =
     g\<lparr>guide_calls := guide_calls g @ [GuideComplete AXIS_RA, IERmTimer (WEtimerID g)],
       WEtimerID := -1\<rparr>"
  by (simp add: stopTimerWE_def)

text \<open>
  C8. When a pulse is pending on an axis (its timer id is not \<open>-1\<close>), a new pulse on that
  axis first completes the pending one: the guide-complete signal of the axis is emitted
  and the pending timer is removed, so that no pulse is pending on the axis when the relay
  command of the new pulse is issued, which comes next in the trace. What follows the relay
  command is nothing when the command fails, the blocking wait when the pulse is shorter
  than 50 ms, and the new timer otherwise.
\<close>

theorem guidePulse_completes_pending:
  "(NStimerID g \<noteq> -1 \<longrightarrow>
      NStimerID (stopTimerNS g) = -1 \<and>
      guide_calls (snd (guidePulseNS ms dir dirName rc tid g)) =
        guide_calls g @ [GuideComplete AXIS_DE, IERmTimer (NStimerID g), SDK_ST4PlusGuide dir ms] @
          (if FAILED rc then [] else if ms < 50 then [usleep (ms * 1000)] else [IEAddTimer ms])) \<and>
   (WEtimerID g \<noteq> -1 \<longrightarrow>
      WEtimerID (stopTimerWE g) = -1 \<and>
      guide_calls (snd (guidePulseWE ms dir dirName rc tid g)) =
        guide_calls g @ [GuideComplete AXIS_RA, IERmTimer (WEtimerID g), SDK_ST4PlusGuide dir ms] @
          (if FAILED rc then [] else if ms < 50 then [usleep (ms * 1000)] else [IEAddTimer ms]))"
  by (simp add: guidePulseNS_def guidePulseWE_def stopTimerNS_pending stopTimerWE_pending Let_def)

theorem guidePulse_completes_pending_witness:
  "NStimerID (snd (GuideNorth 500 0 7 guide0)) = 7 \<and>
   guide_calls (snd (GuideSouth 200 0 8 (snd (GuideNorth 500 0 7 guide0)))) =
     [SDK_ST4PlusGuide TOUPBASE_NORTH 500, IEAddTimer 500,
      GuideComplete AXIS_DE, IERmTimer 7,
      SDK_ST4PlusGuide TOUPBASE_SOUTH 200, IEAddTimer 200] \<and>
   WEtimerID (snd (GuideWest 500 0 9 guide0)) = 9 \<and>
   guide_calls (snd (GuideEast 20 0 10 (snd (GuideWest 500 0 9 guide0)))) =
     [SDK_ST4PlusGuide TOUPBASE_WEST 500, IEAddTimer 500,
      GuideComplete AXIS_RA, IERmTimer 9,
      SDK_ST4PlusGuide TOUPBASE_EAST 20, usleep 20000]"
proof -
  have n: "NStimerID (snd (GuideNorth 500 0 7 guide0)) = 7"
    by (simp add: GuideNorth_def guidePulseNS_def stopTimerNS_def guide0_def FAILED_def Let_def)
  have w: "WEtimerID (snd (GuideWest 500 0 9 guide0)) = 9"
    by (simp add: GuideWest_def guidePulseWE_def stopTimerWE_def guide0_def FAILED_def Let_def)
  have cn: "guide_calls (snd (GuideNorth 500 0 7 guide0)) =
              [SDK_ST4PlusGuide TOUPBASE_NORTH 500, IEAddTimer 500]"
    by (simp add: GuideNorth_def guidePulseNS_def stopTimerNS_def guide0_def FAILED_def Let_def)
  have cw: "guide_calls (snd (GuideWest 500 0 9 guide0)) =
              [SDK_ST4PlusGuide TOUPBASE_WEST 500, IEAddTimer 500]"
    by (simp add: GuideWest_def guidePulseWE_def stopTimerWE_def guide0_def FAILED_def Let_def)
  show ?thesis
    using guidePulse_completes_pending
            [of "snd (GuideNorth 500 0 7 guide0)" 200 TOUPBASE_SOUTH "''South''" 0 8]
          guidePulse_completes_pending
            [of "snd (GuideWest 500 0 9 guide0)" 20 TOUPBASE_EAST "''East''" 0 10]
          n w cn cw
    by (simp add: GuideSouth_def GuideEast_def FAILED_def)
qed

subsection \<open>Region of interest\<close>

lemma smod2_cases: "(v::int) smod 2 = (if even v then 0 else if 0 \<le> v then 1 else -1)"
  by (auto simp: smod_int_alt_def sgn_if abs_if mod_2_eq_odd)

lemma even_toward_zero:
  "even ((v::int) - v smod 2) \<and> \<bar>v - v smod 2\<bar> \<le> \<bar>v\<bar> \<and> \<bar>v - (v - v smod 2)\<bar> \<le> 1 \<and>
   (0 \<le> v \<longrightarrow> v - v smod 2 = 2 * (v div 2))"
proof -
  have "odd v \<Longrightarrow> 0 \<le> v \<Longrightarrow> 1 \<le> v" by (cases "v = 0") auto
  moreover have "odd v \<Longrightarrow> v - 1 = 2 * (v div 2)" by presburger
  moreover have "even v \<Longrightarrow> v = 2 * (v div 2)" by presburger
  ultimately show ?thesis by (auto simp: smod2_cases)
qed

lemma round_down_even:
  "0 \<le> (v::int) \<Longrightarrow> v - v smod 2 = spec_round_down_even v"
  using even_toward_zero [of v] by (simp add: spec_round_down_even_def)

lemma spec_round_down_even_greatest:
  "even (spec_round_down_even v) \<and> spec_round_down_even v \<le> v \<and>
   v < spec_round_down_even v + 2"
  unfolding spec_round_down_even_def by presburger

lemma UpdateCCDFrame_reject:
  "w0 - w0 smod 2 > XRes (PrimaryCCD s) \<or> h0 - h0 smod 2 > YRes (PrimaryCCD s) \<Longrightarrow>
   UpdateCCDFrame x0 y0 w0 h0 rc s = Inr (False, s)"
  by (auto simp: UpdateCCDFrame_def Let_def)

lemma UpdateCCDFrame_accept:
  assumes "UpdateCCDFrame x0 y0 w0 h0 rc s = Inr (True, s')"
  shows "calls s' = calls s @
           [SDK_put_Roi (x0 - x0 smod 2) (y0 - y0 smod 2) (w0 - w0 smod 2) (h0 - h0 smod 2),
            Streamer_setSize ((w0 - w0 smod 2) sdiv BinX (PrimaryCCD s))
                             ((h0 - h0 smod 2) sdiv BinY (PrimaryCCD s))] \<and>
         SubX (PrimaryCCD s') = x0 - x0 smod 2 \<and> SubY (PrimaryCCD s') = y0 - y0 smod 2 \<and>
         SubW (PrimaryCCD s') = w0 - w0 smod 2 \<and> SubH (PrimaryCCD s') = h0 - h0 smod 2"
  using assms
  by (auto simp: UpdateCCDFrame_def Let_def emit_def split: if_splits)

text \<open>
  C10. Let x, y, w and h be a requested region, none of them negative. \<open>UpdateCCDFrame\<close>
  works with each of them rounded down to the nearest even number, that is, with the
  greatest even number that is not above it. When the rounded width exceeds the X
  resolution of the sensor or the rounded height its Y resolution, the function returns
  false with the state of the driver unchanged and no call made, so that no region is
  applied and the frame of the chip stays as it was. When it returns true, the region
  handed to the SDK and stored as the frame of the chip consists of the rounded values.
\<close>

theorem UpdateCCDFrame_even_roi:
  assumes "0 \<le> x" and "0 \<le> y" and "0 \<le> w" and "0 \<le> h"
  shows "(spec_round_down_even w > XRes (PrimaryCCD s) \<or>
          spec_round_down_even h > YRes (PrimaryCCD s) \<longrightarrow>
            UpdateCCDFrame x y w h rc s = Inr (False, s)) \<and>
         (UpdateCCDFrame x y w h rc s = Inr (True, s') \<longrightarrow>
            calls s' = calls s @
              [SDK_put_Roi (spec_round_down_even x) (spec_round_down_even y)
                           (spec_round_down_even w) (spec_round_down_even h),
               Streamer_setSize (spec_round_down_even w sdiv BinX (PrimaryCCD s))
                                (spec_round_down_even h sdiv BinY (PrimaryCCD s))] \<and>
            SubX (PrimaryCCD s') = spec_round_down_even x \<and>
            SubY (PrimaryCCD s') = spec_round_down_even y \<and>
            SubW (PrimaryCCD s') = spec_round_down_even w \<and>
            SubH (PrimaryCCD s') = spec_round_down_even h) \<and>
         (\<forall>v \<in> {x, y, w, h}.
            even (spec_round_down_even v) \<and> spec_round_down_even v \<le> v \<and>
            v < spec_round_down_even v + 2)"
proof -
  have r: "x - x smod 2 = spec_round_down_even x" "y - y smod 2 = spec_round_down_even y"
          "w - w smod 2 = spec_round_down_even w" "h - h smod 2 = spec_round_down_even h"
    using assms by (simp_all add: round_down_even)
  show ?thesis
    using UpdateCCDFrame_reject [of s w h x y rc] UpdateCCDFrame_accept [of x y w h rc s s']
          spec_round_down_even_greatest
    unfolding r by blast
qed

lemma roi_cam0:
  "UpdateCCDFrame 3 1 5 4 0 cam0 =
     Inr (True, cam0\<lparr>PrimaryCCD := chip0\<lparr>SubX := 2, SubY := 0, SubW := 4, SubH := 4\<rparr>,
                     m_DownloadEstimation := 10000,
                     calls := [SDK_put_Roi 2 0 4 4, Streamer_setSize 4 4]\<rparr>)"
  by (simp add: UpdateCCDFrame_def cam0_def chip0_def Let_def emit_def FAILED_def smod2_cases
                setFrameBufferSize_def int_ok_def)

lemma roi_overflow:
  "UpdateCCDFrame 0 0 14208 10656 0
     (cam0\<lparr>PrimaryCCD := chip0\<lparr>XRes := 14208, YRes := 10656, BPP := 16\<rparr>\<rparr>) = Inl SignedOverflow"
  by (simp add: UpdateCCDFrame_def cam0_def chip0_def Let_def emit_def FAILED_def smod2_cases
                int_ok_def)

theorem UpdateCCDFrame_even_roi_witness:
  "UpdateCCDFrame 3 1 7 4 0 cam0 = Inr (False, cam0) \<and>
   UpdateCCDFrame 3 1 4 6 0 cam0 = Inr (False, cam0) \<and>
   UpdateCCDFrame 3 1 5 4 0 cam0 =
     Inr (True, cam0\<lparr>PrimaryCCD := chip0\<lparr>SubX := 2, SubY := 0, SubW := 4, SubH := 4\<rparr>,
                     m_DownloadEstimation := 10000,
                     calls := [SDK_put_Roi 2 0 4 4, Streamer_setSize 4 4]\<rparr>) \<and>
   calls (snd (projr (UpdateCCDFrame 3 1 5 4 0 cam0))) = [SDK_put_Roi 2 0 4 4, Streamer_setSize 4 4] \<and>
   SubX (PrimaryCCD (snd (projr (UpdateCCDFrame 3 1 5 4 0 cam0)))) = 2 \<and>
   SubY (PrimaryCCD (snd (projr (UpdateCCDFrame 3 1 5 4 0 cam0)))) = 0 \<and>
   SubW (PrimaryCCD (snd (projr (UpdateCCDFrame 3 1 5 4 0 cam0)))) = 4 \<and>
   SubH (PrimaryCCD (snd (projr (UpdateCCDFrame 3 1 5 4 0 cam0)))) = 4"
proof -
  have c: "XRes (PrimaryCCD cam0) = 4 \<and> YRes (PrimaryCCD cam0) = 4 \<and> calls cam0 = [] \<and>
           BinX (PrimaryCCD cam0) = 1 \<and> BinY (PrimaryCCD cam0) = 1"
    by (simp add: cam0_def chip0_def)
  have r: "spec_round_down_even 7 = 6 \<and> spec_round_down_even 6 = 6 \<and>
           spec_round_down_even 5 = 4 \<and> spec_round_down_even 4 = 4 \<and>
           spec_round_down_even 3 = 2 \<and> spec_round_down_even 1 = 0"
    by (simp add: spec_round_down_even_def)
  have 1: "UpdateCCDFrame 3 1 7 4 0 cam0 = Inr (False, cam0)"
    using UpdateCCDFrame_even_roi [where w = 7 and h = 4 and x = 3 and y = 1 and rc = 0 and s = cam0] c r
    by simp
  have 2: "UpdateCCDFrame 3 1 4 6 0 cam0 = Inr (False, cam0)"
    using UpdateCCDFrame_even_roi [where w = 4 and h = 6 and x = 3 and y = 1 and rc = 0 and s = cam0] c r
    by simp
  have e: "UpdateCCDFrame 3 1 5 4 0 cam0 = Inr (True, snd (projr (UpdateCCDFrame 3 1 5 4 0 cam0)))"
    by (simp add: roi_cam0)
  have 3: "calls (snd (projr (UpdateCCDFrame 3 1 5 4 0 cam0))) = [SDK_put_Roi 2 0 4 4, Streamer_setSize 4 4] \<and>
   SubX (PrimaryCCD (snd (projr (UpdateCCDFrame 3 1 5 4 0 cam0)))) = 2 \<and>
   SubY (PrimaryCCD (snd (projr (UpdateCCDFrame 3 1 5 4 0 cam0)))) = 0 \<and>
   SubW (PrimaryCCD (snd (projr (UpdateCCDFrame 3 1 5 4 0 cam0)))) = 4 \<and>
   SubH (PrimaryCCD (snd (projr (UpdateCCDFrame 3 1 5 4 0 cam0)))) = 4"
    using UpdateCCDFrame_even_roi [where w = 5 and h = 4 and x = 3 and y = 1 and rc = 0 and s = cam0
            and s' = "snd (projr (UpdateCCDFrame 3 1 5 4 0 cam0))"]
          e c r
    by simp
  from 1 2 3 roi_cam0 show ?thesis by blast
qed

end
